theory Spec2Isabelle
  imports Complex_Main "HOL-Library.AList"
begin

section \<open>Drift analysis (src/data/drift\_analysis.py)\<close>

text \<open>
  The program is the single function \<open>analyze_drift\<close>: it loads two tables, keeps the
  last 100 production rows, runs a two-sample Kolmogorov-Smirnov test per feature,
  aggregates the four scores and prints one JSON document.

  Conventions of the embedding:
  \<^item> Python floats are modelled as \<^typ>\<open>real\<close>: every cell of a table is a number (no
    NaN, no infinity). Comparisons, \<open>min\<close> and doubling are exact on doubles; the running
    sum and its division by four are not, and are modelled twice: exactly in \<open>analysis\<close>
    and rounded to doubles in \<open>analysis_double\<close>;
  \<^item> Python ints are \<^typ>\<open>int\<close>, row counts (\<open>len\<close>) are \<^typ>\<open>nat\<close>;
  \<^item> a raised exception is the \<open>Inl\<close> branch of a sum, so the \<open>try\<close>/\<open>except\<close> of the
    source is a case distinction on the value of its body;
  \<^item> dictionaries with literal keys are records, the dictionary \<open>drift_results\<close> filled
    inside the loop is an association list in insertion order;
  \<^item> the two calls of \<open>pd.read_csv\<close> and the call of \<open>stats.ks_2samp\<close> leave the
    repository: the outcome of each load and the test function are parameters.
\<close>

subsection \<open>Exceptions\<close>

datatype exn =
    IOError string      \<comment> \<open>\<open>pd.read_csv\<close> could not read or parse its file\<close>
  | KeyError string     \<comment> \<open>\<open>df[feature]\<close> on a column the table does not have\<close>
  | ValueError string   \<comment> \<open>the statistical test refused its arguments\<close>

text \<open>\<open>str(e)\<close>: the message; for a \<open>KeyError\<close> the \<open>repr\<close> of the key, in single quotes.\<close>

fun str :: "exn \<Rightarrow> string" where
  "str (IOError m) = m"
| "str (KeyError k) = [CHR 0x27] @ k @ [CHR 0x27]"
| "str (ValueError m) = m"

subsection \<open>Tables\<close>

text \<open>
  A \<open>DataFrame\<close> as \<open>read_csv\<close> yields it: the header and the rows in file order, each
  row holding one cell per column.
\<close>

record dataframe =
  columns :: "string list"
  rows :: "real list list"

definition len :: "dataframe \<Rightarrow> nat" where
  "len df = length (rows df)"

text \<open>\<open>df.tail(n)\<close>: the last \<open>n\<close> rows, in their order; the whole table when it is shorter.\<close>

definition tail :: "nat \<Rightarrow> dataframe \<Rightarrow> dataframe" where
  "tail n df = df\<lparr>rows := drop (length (rows df) - n) (rows df)\<rparr>"

fun index_of :: "'a \<Rightarrow> 'a list \<Rightarrow> nat" where
  "index_of c [] = 0"
| "index_of c (x # xs) = (if x = c then 0 else Suc (index_of c xs))"

text \<open>\<open>df[feature].values\<close>: the column as an array, or \<open>KeyError\<close>.\<close>

definition getitem :: "dataframe \<Rightarrow> string \<Rightarrow> exn + real list" where
  "getitem df feature =
     (if feature \<in> set (columns df)
      then Inr (map (\<lambda>r. r ! index_of feature (columns df)) (rows df))
      else Inl (KeyError feature))"

text \<open>Lines 21--22: \<open>if len(production_df) > 100: production_df = production_df.tail(100)\<close>.\<close>

definition window :: "dataframe \<Rightarrow> dataframe" where
  "window production_df =
     (if len production_df > 100 then tail 100 production_df else production_df)"

text \<open>Line 25.\<close>

definition feature_columns :: "string list" where
  "feature_columns = [''sepal_length'', ''sepal_width'', ''petal_length'', ''petal_width'']"

subsection \<open>Per-feature results\<close>

text \<open>The statistical test: two samples to a statistic and a p-value, or an exception.\<close>

type_synonym ks_test = "real list \<Rightarrow> real list \<Rightarrow> exn + real \<times> real"

record feature_drift =
  ks_statistic :: real
  p_value :: real
  drift_score :: real
  is_significant :: bool
  drift_detected :: bool
  reference_mean :: real
  production_mean :: real
  reference_std :: real
  production_std :: real

text \<open>\<open>ndarray.mean()\<close> and \<open>ndarray.std()\<close> (population standard deviation).\<close>

definition mean :: "real list \<Rightarrow> real" where
  "mean xs = sum_list xs / real (length xs)"

definition std :: "real list \<Rightarrow> real" where
  "std xs = sqrt (mean (map (\<lambda>x. (x - mean xs)\<^sup>2) xs))"

text \<open>Lines 40--58: the dictionary stored under the feature's name.\<close>

definition feature_result :: "real list \<Rightarrow> real list \<Rightarrow> real \<Rightarrow> real \<Rightarrow> feature_drift" where
  "feature_result ref_data prod_data stat pval =
     \<lparr> ks_statistic = stat,
       p_value = pval,
       drift_score = min (stat * 2) 1,
       is_significant = (pval < 0.05),
       drift_detected = (stat > 0.1),
       reference_mean = mean ref_data,
       production_mean = mean prod_data,
       reference_std = std ref_data,
       production_std = std prod_data \<rparr>"

text \<open>
  Lines 28--58: the loop over the features, on the three variables it updates
  (\<open>drift_results\<close>, \<open>overall_drift_score\<close>, \<open>significant_drifts\<close>). An exception leaves
  the loop at once.
\<close>

type_synonym loop_vars = "(string \<times> feature_drift) list \<times> real \<times> int"

fun feature_loop ::
  "ks_test \<Rightarrow> dataframe \<Rightarrow> dataframe \<Rightarrow> string list \<Rightarrow> loop_vars \<Rightarrow> exn + loop_vars" where
  "feature_loop ks reference_df production_df [] vars = Inr vars"
| "feature_loop ks reference_df production_df (feature # rest) (results, score_sum, significant) =
     (case getitem reference_df feature of
        Inl e \<Rightarrow> Inl e
      | Inr ref_data \<Rightarrow>
          (case getitem production_df feature of
             Inl e \<Rightarrow> Inl e
           | Inr prod_data \<Rightarrow>
               (case ks ref_data prod_data of
                  Inl e \<Rightarrow> Inl e
                | Inr (stat, pval) \<Rightarrow>
                    feature_loop ks reference_df production_df rest
                      (AList.update feature (feature_result ref_data prod_data stat pval) results,
                       score_sum + min (stat * 2) 1,
                       if pval < 0.05 then significant + 1 else significant))))"

subsection \<open>Aggregation and report\<close>

text \<open>Line 62.\<close>

definition severity :: "real \<Rightarrow> string" where
  "severity score = (if score < 0.2 then ''low'' else if score < 0.5 then ''medium'' else ''high'')"

text \<open>Line 90.\<close>

definition monitoring_level :: "real \<Rightarrow> string" where
  "monitoring_level score =
     (if score < 0.2 then ''normal'' else if score < 0.5 then ''warning'' else ''critical'')"

text \<open>\<open>str\<close> of a Python int, for the f-string of line 67.\<close>

fun str_nat :: "nat \<Rightarrow> string" where
  "str_nat n =
     (if n < 10 then [char_of (48 + n)] else str_nat (n div 10) @ [char_of (48 + n mod 10)])"

declare str_nat.simps [simp del]

definition str_int :: "int \<Rightarrow> string" where
  "str_int i = (if i < 0 then CHR ''-'' # str_nat (nat (- i)) else str_nat (nat i))"

text \<open>The four messages of lines 67--72; the two emoji are written as their UTF-8 bytes.\<close>

definition significant_drift_message :: "int \<Rightarrow> string" where
  "significant_drift_message n =
     [CHR 0xF0, CHR 0x9F, CHR 0x9A, CHR 0xA8] @ '' Detected significant drift in '' @
     str_int n @ '' feature(s)''"

definition retrain_message :: string where
  "retrain_message = ''Consider retraining the model with recent data''"

definition monitor_message :: string where
  "monitor_message = ''Monitor model performance metrics closely''"

definition stable_message :: string where
  "stable_message = [CHR 0xE2, CHR 0x9C, CHR 0x85] @ '' Data distribution is stable''"

text \<open>Lines 65--72: three \<open>if\<close> statements in a row, each appending to the list.\<close>

definition build_recommendations :: "int \<Rightarrow> real \<Rightarrow> string list" where
  "build_recommendations significant score =
     (let recs0 = [];
          recs1 = (if significant > 0
                   then (recs0 @ [significant_drift_message significant]) @ [retrain_message]
                   else recs0);
          recs2 = (if score > 0.3 then recs1 @ [monitor_message] else recs1);
          recs3 = (if score < 0.1 then recs2 @ [stable_message] else recs2)
      in recs3)"

record drift_analysis =
  overall_drift_score :: real
  drift_severity :: string
  significant_drifts :: int
  total_features :: nat
  feature_analysis :: "(string \<times> feature_drift) list"

record data_summary =
  reference_samples :: nat
  production_samples :: nat
  analysis_limit :: nat

record monitoring_status =
  level :: string
  requires_attention :: bool

record analysis_results =
  drift_analysis :: drift_analysis
  data_summary :: data_summary
  recommendations :: "string list"
  monitoring_status :: monitoring_status

record error_result =
  error :: string
  details :: string
  recommendation :: string

text \<open>
  Lines 12--93, the body of the \<open>try\<close> up to the dictionary it prints. The reference
  table is read first, so its failure is the one reported when both loads fail.
\<close>

definition analysis ::
  "ks_test \<Rightarrow> exn + dataframe \<Rightarrow> exn + dataframe \<Rightarrow> exn + analysis_results" where
  "analysis ks read_reference read_production =
     (case read_reference of
        Inl e \<Rightarrow> Inl e
      | Inr reference_df \<Rightarrow>
          (case read_production of
             Inl e \<Rightarrow> Inl e
           | Inr loaded \<Rightarrow>
               (let production_df = window loaded in
                case feature_loop ks reference_df production_df feature_columns ([], 0, 0) of
                  Inl e \<Rightarrow> Inl e
                | Inr (results, score_sum, significant) \<Rightarrow>
                    (let score = score_sum / real (length feature_columns) in
                     Inr \<lparr> drift_analysis =
                             \<lparr> overall_drift_score = score,
                               drift_severity = severity score,
                               significant_drifts = significant,
                               total_features = length feature_columns,
                               feature_analysis = results \<rparr>,
                           data_summary =
                             \<lparr> reference_samples = len reference_df,
                               production_samples = len production_df,
                               analysis_limit = 100 \<rparr>,
                           recommendations = build_recommendations significant score,
                           monitoring_status =
                             \<lparr> level = monitoring_level score,
                               requires_attention = (significant > 0 \<or> score > 0.3) \<rparr> \<rparr>))))"

text \<open>What the program writes to standard output: a JSON object of one of two shapes.\<close>

datatype document = AnalysisDocument analysis_results | ErrorDocument error_result

text \<open>The keys of the printed object, as the dictionary literals of lines 75 and 98 list them.\<close>

fun top_level_keys :: "document \<Rightarrow> string list" where
  "top_level_keys (AnalysisDocument r) =
     [''drift_analysis'', ''data_summary'', ''recommendations'', ''monitoring_status'']"
| "top_level_keys (ErrorDocument e) = [''error'', ''details'', ''recommendation'']"

text \<open>Lines 98--102: the dictionary printed by the \<open>except\<close> branch.\<close>

definition error_document :: "exn \<Rightarrow> document" where
  "error_document e =
     ErrorDocument
       \<lparr> error = ''Python drift analysis failed'',
         details = str e,
         recommendation =
           ''Check Python environment and required packages (pandas, numpy, scipy)'' \<rparr>"

text \<open>Lines 11--103: the whole function, as the list of documents it prints.\<close>

definition analyze_drift :: "ks_test \<Rightarrow> exn + dataframe \<Rightarrow> exn + dataframe \<Rightarrow> document list" where
  "analyze_drift ks read_reference read_production =
     (case analysis ks read_reference read_production of
        Inr analysis_results \<Rightarrow> [AnalysisDocument analysis_results]
      | Inl e \<Rightarrow> [error_document e])"

subsection \<open>The two-sample Kolmogorov-Smirnov test\<close>

text \<open>
  \<open>stats.ks_2samp\<close> is SciPy's and not part of the repository; the analysis above takes
  the test as a parameter. Where a statement needs the test itself, it is the following
  one, written from the specification (section 4.1 and glossary).
\<close>

text \<open>
  Modelled from the spec: the empirical cumulative distribution function of a sample,
  used by the missing \<open>ks_2samp\<close> ("the two samples' empirical cumulative distribution
  functions").
\<close>

definition ecdf :: "real list \<Rightarrow> real \<Rightarrow> real" where
  "ecdf xs t = real (length (filter (\<lambda>x. x \<le> t) xs)) / real (length xs)"

text \<open>
  Modelled from the spec: the statistic D of the missing \<open>ks_2samp\<close>, "the maximum distance
  between the two samples' empirical cumulative distribution functions, in [0,1]". Both
  functions are step functions that change at observations only, so the maximum is taken
  over the observations of the two samples.
\<close>

definition ks_distance :: "real list \<Rightarrow> real list \<Rightarrow> real" where
  "ks_distance xs ys = fold max (map (\<lambda>t. \<bar>ecdf xs t - ecdf ys t\<bar>) (xs @ ys)) 0"

text \<open>
  Modelled from the spec: all ways of dealing the pooled observations into a first group of
  \<open>k\<close> and a second group of the rest, for the p-value of the missing \<open>ks_2samp\<close>.
\<close>

fun splits :: "'a list \<Rightarrow> nat \<Rightarrow> ('a list \<times> 'a list) list" where
  "splits [] 0 = [([], [])]"
| "splits [] (Suc k) = []"
| "splits (z # zs) 0 = map (\<lambda>(a, b). (a, z # b)) (splits zs 0)"
| "splits (z # zs) (Suc k) =
     map (\<lambda>(a, b). (z # a, b)) (splits zs k) @ map (\<lambda>(a, b). (a, z # b)) (splits zs (Suc k))"

text \<open>
  Modelled from the spec: the p-value of the missing \<open>ks_2samp\<close>, the "probability of
  observing this gap under the same-distribution null hypothesis". Under that hypothesis
  every split of the pooled observations into groups of the two sample sizes is equally
  likely; the p-value is the share of the splits whose distance is at least the observed
  one. SciPy's numerical method for the same quantity is not reproduced.
\<close>

definition ks_p_value :: "real list \<Rightarrow> real list \<Rightarrow> real" where
  "ks_p_value xs ys =
     (let d = ks_distance xs ys;
          arrangements = splits (xs @ ys) (length xs)
      in real (length (filter (\<lambda>(a, b). d \<le> ks_distance a b) arrangements)) /
         real (length arrangements))"

text \<open>
  Modelled from the spec: the missing \<open>ks_2samp\<close> itself; it "fails if either sample
  is empty" and otherwise yields the statistic and the p-value.
\<close>

definition ks_2samp :: ks_test where
  "ks_2samp data1 data2 =
     (if data1 = [] \<or> data2 = []
      then Inl (ValueError ''Data passed to ks_2samp must not be empty'')
      else Inr (ks_distance data1 data2, ks_p_value data1 data2))"

subsection \<open>Lines 41 and 61 in double precision\<close>

text \<open>
  A Python float is an IEEE 754 binary64 number. On such numbers the comparisons, \<open>min\<close>
  and the doubling of line 40 are exact (short of overflow), so \<open>feature_result\<close>,
  \<open>severity\<close>, \<open>monitoring_level\<close> and \<open>build_recommendations\<close> compute what the source
  computes. The addition of line 41 and the division of line 61 are rounded to the nearest
  double. \<open>feature_loop\<close> and \<open>analysis\<close> above take both steps as exact;
  \<open>feature_loop_double\<close> and \<open>analysis_double\<close> round them. Results of magnitude
  \<open>2\<^sup>1\<^sup>0\<^sup>2\<^sup>4\<close> and more (Python's \<open>inf\<close>) and \<open>nan\<close> are not represented; sums of scores
  between 0 and 1 stay far from both.
\<close>

text \<open>The integer nearest to \<open>y\<close>; of the two nearest, the even one.\<close>

definition round_half_even :: "real \<Rightarrow> int" where
  "round_half_even y =
     (let f = \<lfloor>y\<rfloor>; r = y - of_int f
      in if r < 1 / 2 then f else if 1 / 2 < r then f + 1 else if even f then f else f + 1)"

text \<open>
  How often a magnitude of at least 1 is halved until it is below 2, and how often a
  magnitude below 1 is doubled until it is at least 1. The bounds are the exponent range
  of the format: exponents run from -1022 to 1023.
\<close>

fun halvings :: "nat \<Rightarrow> real \<Rightarrow> nat" where
  "halvings n x = (if n = 0 \<or> x < 2 then 0 else Suc (halvings (n - 1) (x / 2)))"

fun doublings :: "nat \<Rightarrow> real \<Rightarrow> nat" where
  "doublings n x = (if n = 0 \<or> 1 \<le> x then 0 else Suc (doublings (n - 1) (x * 2)))"

declare halvings.simps [simp del] doublings.simps [simp del]

text \<open>
  The binary exponent \<open>e\<close> of a double's magnitude, \<open>2\<^sup>e \<le> \<bar>x\<bar> < 2\<^sup>e\<^sup>+\<^sup>1\<close>; below the normal
  range (subnormal numbers and zero) it stays at -1022.
\<close>

definition exponent :: "real \<Rightarrow> int" where
  "exponent x = (if 1 \<le> \<bar>x\<bar> then int (halvings 1023 \<bar>x\<bar>) else - int (doublings 1022 \<bar>x\<bar>))"

text \<open>The spacing of the doubles at \<open>x\<close>: 52 fraction bits below the exponent.\<close>

definition quantum :: "real \<Rightarrow> real" where
  "quantum x = 2 powi (exponent x - 52)"

text \<open>Rounding to the nearest double, ties to the even significand.\<close>

definition round_double :: "real \<Rightarrow> real" where
  "round_double x = of_int (round_half_even (x / quantum x)) * quantum x"

text \<open>Lines 28--58, the addition of line 41 rounded.\<close>

fun feature_loop_double ::
  "ks_test \<Rightarrow> dataframe \<Rightarrow> dataframe \<Rightarrow> string list \<Rightarrow> loop_vars \<Rightarrow> exn + loop_vars" where
  "feature_loop_double ks reference_df production_df [] vars = Inr vars"
| "feature_loop_double ks reference_df production_df (feature # rest)
     (results, score_sum, significant) =
     (case getitem reference_df feature of
        Inl e \<Rightarrow> Inl e
      | Inr ref_data \<Rightarrow>
          (case getitem production_df feature of
             Inl e \<Rightarrow> Inl e
           | Inr prod_data \<Rightarrow>
               (case ks ref_data prod_data of
                  Inl e \<Rightarrow> Inl e
                | Inr (stat, pval) \<Rightarrow>
                    feature_loop_double ks reference_df production_df rest
                      (AList.update feature (feature_result ref_data prod_data stat pval) results,
                       round_double (score_sum + min (stat * 2) 1),
                       if pval < 0.05 then significant + 1 else significant))))"

text \<open>Lines 12--93, the division of line 61 rounded.\<close>

definition analysis_double ::
  "ks_test \<Rightarrow> exn + dataframe \<Rightarrow> exn + dataframe \<Rightarrow> exn + analysis_results" where
  "analysis_double ks read_reference read_production =
     (case read_reference of
        Inl e \<Rightarrow> Inl e
      | Inr reference_df \<Rightarrow>
          (case read_production of
             Inl e \<Rightarrow> Inl e
           | Inr loaded \<Rightarrow>
               (let production_df = window loaded in
                case feature_loop_double ks reference_df production_df feature_columns
                       ([], 0, 0) of
                  Inl e \<Rightarrow> Inl e
                | Inr (results, score_sum, significant) \<Rightarrow>
                    (let score = round_double (score_sum / real (length feature_columns)) in
                     Inr \<lparr> drift_analysis =
                             \<lparr> overall_drift_score = score,
                               drift_severity = severity score,
                               significant_drifts = significant,
                               total_features = length feature_columns,
                               feature_analysis = results \<rparr>,
                           data_summary =
                             \<lparr> reference_samples = len reference_df,
                               production_samples = len production_df,
                               analysis_limit = 100 \<rparr>,
                           recommendations = build_recommendations significant score,
                           monitoring_status =
                             \<lparr> level = monitoring_level score,
                               requires_attention = (significant > 0 \<or> score > 0.3) \<rparr> \<rparr>))))"

text \<open>
  Modelled from the spec: the missing \<open>ks_2samp\<close> as a function into doubles, the
  statistic and the p-value of the test above each rounded to the nearest double.
\<close>

definition ks_2samp_double :: ks_test where
  "ks_2samp_double data1 data2 =
     (case ks_2samp data1 data2 of
        Inl e \<Rightarrow> Inl e
      | Inr (stat, pval) \<Rightarrow> Inr (round_double stat, round_double pval))"

subsection \<open>Specification predicates and sample tables\<close>

text \<open>
  The whole pipeline succeeds: both tables load, every configured feature is a column of
  the reference table and of the windowed production table, and the test returns on every
  pair of columns.
\<close>

definition pipeline_succeeds :: "ks_test \<Rightarrow> exn + dataframe \<Rightarrow> exn + dataframe \<Rightarrow> bool" where
  "pipeline_succeeds ks read_reference read_production \<longleftrightarrow>
     (\<exists>reference_df production_df.
        read_reference = Inr reference_df \<and> read_production = Inr production_df \<and>
        (\<forall>feature \<in> set feature_columns.
           \<exists>ref_data prod_data stat pval.
             getitem reference_df feature = Inr ref_data \<and>
             getitem (window production_df) feature = Inr prod_data \<and>
             ks ref_data prod_data = Inr (stat, pval)))"

text \<open>Small tables on which the theorems below are exercised.\<close>

definition reference_two :: dataframe where
  "reference_two =
     \<lparr> columns = [''sepal_length'', ''sepal_width'', ''petal_length'', ''petal_width''],
       rows = [[46, 30, 14, 2], [47, 30, 14, 2]] \<rparr>"

definition production_two :: dataframe where
  "production_two =
     \<lparr> columns = [''sepal_length'', ''sepal_width'', ''petal_length'', ''petal_width''],
       rows = [[49, 30, 14, 2], [50, 30, 14, 2]] \<rparr>"

definition production_no_petal_width :: dataframe where
  "production_no_petal_width =
     \<lparr> columns = [''sepal_length'', ''sepal_width'', ''petal_length''],
       rows = [[49, 30, 14], [50, 30, 14]] \<rparr>"

definition production_empty :: dataframe where
  "production_empty =
     \<lparr> columns = [''sepal_length'', ''sepal_width'', ''petal_length'', ''petal_width''],
       rows = [] \<rparr>"

text \<open>
  Five reference rows and two production rows; the statistics of the four columns are
  0, 1/10, 1/5 and 3/10.
\<close>

definition reference_drifted :: dataframe where
  "reference_drifted =
     \<lparr> columns = [''sepal_length'', ''sepal_width'', ''petal_length'', ''petal_width''],
       rows = [[7, 3, 2, 3], [7, 3, 3, 3], [7, 4, 3, 3], [7, 5, 5, 3], [7, 5, 5, 5]] \<rparr>"

definition production_drifted :: dataframe where
  "production_drifted =
     \<lparr> columns = [''sepal_length'', ''sepal_width'', ''petal_length'', ''petal_width''],
       rows = [[7, 3, 3, 3], [7, 5, 5, 5]] \<rparr>"

text \<open>A table of \<open>n\<close> rows whose first column counts the rows from 0.\<close>

definition numbered :: "nat \<Rightarrow> dataframe" where
  "numbered n =
     \<lparr> columns = [''sepal_length'', ''sepal_width'', ''petal_length'', ''petal_width''],
       rows = map (\<lambda>i. [real i, 30, 14, 2]) [0..<n] \<rparr>"

text \<open>A test that answers every pair of samples with the same statistic and p-value.\<close>

definition constant_test :: "real \<Rightarrow> real \<Rightarrow> ks_test" where
  "constant_test stat pval = (\<lambda>ref_data prod_data. Inr (stat, pval))"

section \<open>Properties of the loop and of the test\<close>

lemma update_fresh: "k \<notin> fst ` set al \<Longrightarrow> AList.update k v al = al @ [(k, v)]"
  by (induction al) auto

text \<open>What the loop has done when it ends without an exception.\<close>

lemma feature_loop_Inr:
  "feature_loop ks rd pd fs (res, tot, sig) = Inr (res', tot', sig') \<Longrightarrow>
   distinct fs \<Longrightarrow> set fs \<inter> fst ` set res = {} \<Longrightarrow>
   \<exists>new. res' = res @ new \<and> map fst new = fs \<and>
     tot' = tot + sum_list (map (\<lambda>e. drift_score (snd e)) new) \<and>
     sig' = sig + int (length (filter (\<lambda>e. is_significant (snd e)) new)) \<and>
     list_all (\<lambda>(f, r). \<exists>xs ys d p. getitem rd f = Inr xs \<and> getitem pd f = Inr ys \<and>
        ks xs ys = Inr (d, p) \<and> r = feature_result xs ys d p) new"
proof (induction fs arbitrary: res tot sig)
  case Nil
  then show ?case by simp
next
  case (Cons f fs)
  from Cons.prems(1) obtain xs ys d p where
    gx: "getitem rd f = Inr xs" and gy: "getitem pd f = Inr ys" and k: "ks xs ys = Inr (d, p)"
    and rest: "feature_loop ks rd pd fs
       (AList.update f (feature_result xs ys d p) res, tot + min (d * 2) 1,
        if p < 0.05 then sig + 1 else sig) = Inr (res', tot', sig')"
    by (auto split: sum.splits)
  have fresh: "f \<notin> fst ` set res" using Cons.prems(3) by auto
  let ?r = "feature_result xs ys d p"
  have upd: "AList.update f ?r res = res @ [(f, ?r)]" using fresh by (rule update_fresh)
  have disj: "set fs \<inter> fst ` set (res @ [(f, ?r)]) = {}"
    using Cons.prems(2,3) by auto
  have dfs: "distinct fs" using Cons.prems(2) by simp
  from Cons.IH [OF rest [unfolded upd] dfs disj]
  obtain new where n: "res' = (res @ [(f, ?r)]) @ new" "map fst new = fs"
     "tot' = tot + min (d * 2) 1 + sum_list (map (\<lambda>e. drift_score (snd e)) new)"
     "sig' = (if p < 0.05 then sig + 1 else sig) +
        int (length (filter (\<lambda>e. is_significant (snd e)) new))"
     "list_all (\<lambda>(f, r). \<exists>xs ys d p. getitem rd f = Inr xs \<and> getitem pd f = Inr ys \<and>
        ks xs ys = Inr (d, p) \<and> r = feature_result xs ys d p) new"
    by blast
  show ?case
    apply (rule exI [of _ "(f, ?r) # new"])
    using n gx gy k by (auto simp: feature_result_def)
qed

text \<open>The loop ends without an exception exactly when every feature can be tested.\<close>

lemma feature_loop_isl:
  "\<not> isl (feature_loop ks rd pd fs v) \<longleftrightarrow>
   (\<forall>f\<in>set fs. \<exists>xs ys d pv.
      getitem rd f = Inr xs \<and> getitem pd f = Inr ys \<and> ks xs ys = Inr (d, pv))"
proof (induction fs arbitrary: v)
  case Nil
  then show ?case by (cases v) auto
next
  case (Cons f fs)
  show ?case
    by (cases v) (auto simp: Cons.IH split: sum.splits)
qed

text \<open>The test of the specification: ranges, identical samples, empty samples.\<close>

lemma fold_max_ge: "(a::real) \<le> fold max zs a"
proof (induction zs arbitrary: a)
  case Nil
  show ?case by simp
next
  case (Cons z zs)
  have "a \<le> max z a" by simp
  also have "\<dots> \<le> fold max zs (max z a)" by (rule Cons.IH)
  finally show ?case by simp
qed

lemma fold_max_le: "(a::real) \<le> b \<Longrightarrow> \<forall>z\<in>set zs. z \<le> b \<Longrightarrow> fold max zs a \<le> b"
  by (induction zs arbitrary: a) auto

lemma ecdf_range: "0 \<le> ecdf xs t \<and> ecdf xs t \<le> 1"
proof -
  have "length (filter (\<lambda>x. x \<le> t) xs) \<le> length xs" by (rule length_filter_le)
  then have "real (length (filter (\<lambda>x. x \<le> t) xs)) \<le> real (length xs)" by simp
  then show ?thesis
    unfolding ecdf_def by (cases "length xs = 0") (simp_all add: divide_le_eq_1)
qed

lemma ks_distance_nonneg: "0 \<le> ks_distance xs ys"
  unfolding ks_distance_def by (rule fold_max_ge)

lemma ks_distance_le_1: "ks_distance xs ys \<le> 1"
  unfolding ks_distance_def
proof (rule fold_max_le)
  show "(0::real) \<le> 1" by simp
  show "\<forall>z\<in>set (map (\<lambda>t. \<bar>ecdf xs t - ecdf ys t\<bar>) (xs @ ys)). z \<le> 1"
  proof
    fix z assume "z \<in> set (map (\<lambda>t. \<bar>ecdf xs t - ecdf ys t\<bar>) (xs @ ys))"
    then obtain t where z: "z = \<bar>ecdf xs t - ecdf ys t\<bar>" by auto
    from ecdf_range [of xs t] ecdf_range [of ys t] show "z \<le> 1" unfolding z by linarith
  qed
qed

lemma ks_distance_same: "ks_distance xs xs = 0"
proof -
  have "fold max (map (\<lambda>t. \<bar>ecdf xs t - ecdf xs t\<bar>) (xs @ xs)) 0 \<le> 0"
    by (rule fold_max_le) auto
  with ks_distance_nonneg [of xs xs] show ?thesis by (simp add: ks_distance_def)
qed

lemma splits_nonempty: "k \<le> length zs \<Longrightarrow> splits zs k \<noteq> []"
  by (induction zs k rule: splits.induct) auto

lemma ks_p_value_range: "0 \<le> ks_p_value xs ys \<and> ks_p_value xs ys \<le> 1"
proof -
  let ?ss = "splits (xs @ ys) (length xs)"
  let ?d = "ks_distance xs ys"
  have "length (filter (\<lambda>(a, b). ?d \<le> ks_distance a b) ?ss) \<le> length ?ss"
    by (rule length_filter_le)
  then have "real (length (filter (\<lambda>(a, b). ?d \<le> ks_distance a b) ?ss)) \<le> real (length ?ss)"
    by simp
  then show ?thesis
    unfolding ks_p_value_def Let_def
    by (cases "length ?ss = 0") (simp_all add: divide_le_eq_1)
qed

lemma ks_p_value_of_zero: "ks_distance xs ys = 0 \<Longrightarrow> ks_p_value xs ys = 1"
proof -
  assume d: "ks_distance xs ys = 0"
  let ?ss = "splits (xs @ ys) (length xs)"
  have all: "filter (\<lambda>(a, b). 0 \<le> ks_distance a b) ?ss = ?ss"
    by (rule filter_True) (auto simp: ks_distance_nonneg)
  have "?ss \<noteq> []" by (rule splits_nonempty) simp
  then show ?thesis
    by (simp add: ks_p_value_def d all)
qed

lemma ks_2samp_identical: "xs \<noteq> [] \<Longrightarrow> ks_2samp xs xs = Inr (0, 1)"
  by (simp add: ks_2samp_def ks_distance_same ks_p_value_of_zero)

lemma ks_2samp_range:
  "ks_2samp xs ys = Inr (d, p) \<Longrightarrow> 0 \<le> d \<and> d \<le> 1 \<and> 0 \<le> p \<and> p \<le> 1"
  using ks_distance_nonneg [of xs ys] ks_distance_le_1 [of xs ys] ks_p_value_range [of xs ys]
  by (auto simp: ks_2samp_def split: if_splits)

lemma ks_2samp_empty:
  "xs = [] \<or> ys = [] \<Longrightarrow>
   ks_2samp xs ys = Inl (ValueError ''Data passed to ks_2samp must not be empty'')"
  by (auto simp: ks_2samp_def)

lemma fold_max_mem: "(z::real) \<in> set zs \<Longrightarrow> z \<le> fold max zs a"
proof (induction zs arbitrary: a)
  case Nil
  then show ?case by simp
next
  case (Cons x zs)
  show ?case
  proof (cases "z = x")
    case True
    have "x \<le> max x a" by simp
    also have "\<dots> \<le> fold max zs (max x a)" by (rule fold_max_ge)
    finally show ?thesis using True by simp
  next
    case False
    with Cons.prems have "z \<in> set zs" by simp
    then show ?thesis by (simp add: Cons.IH)
  qed
qed

lemma fold_max_in: "fold max zs (a::real) \<in> insert a (set zs)"
  by (induction zs arbitrary: a) (auto simp: max_def)

text \<open>
  The distance is the largest gap between the two empirical distribution functions over
  the whole real line, not only over the observations.
\<close>

lemma ks_distance_is_max:
  "\<bar>ecdf xs t - ecdf ys t\<bar> \<le> ks_distance xs ys"
proof (cases "filter (\<lambda>z. z \<le> t) (xs @ ys) = []")
  case True
  then have "filter (\<lambda>z. z \<le> t) xs = []" "filter (\<lambda>z. z \<le> t) ys = []" by simp_all
  then have "\<bar>ecdf xs t - ecdf ys t\<bar> = 0" by (simp add: ecdf_def)
  then show ?thesis using ks_distance_nonneg [of xs ys] by simp
next
  case False
  define P where "P = set (filter (\<lambda>z. z \<le> t) (xs @ ys))"
  have fin: "finite P" by (simp add: P_def)
  have ne: "P \<noteq> {}" using False unfolding P_def by (simp only: set_empty not_False_eq_True)
  define u where "u = Max P"
  have uP: "u \<in> P" unfolding u_def using fin ne by (rule Max_in)
  then have u_mem: "u \<in> set (xs @ ys)" and u_le: "u \<le> t" by (auto simp: P_def)
  have same: "z \<le> t \<longleftrightarrow> z \<le> u" if "z \<in> set (xs @ ys)" for z
  proof
    assume "z \<le> t"
    with that have "z \<in> P" by (simp add: P_def)
    then show "z \<le> u" unfolding u_def using fin by (rule Max_ge [rotated])
  next
    assume "z \<le> u"
    with u_le show "z \<le> t" by simp
  qed
  have "filter (\<lambda>z. z \<le> t) xs = filter (\<lambda>z. z \<le> u) xs"
    by (rule filter_cong) (auto simp: same)
  moreover have "filter (\<lambda>z. z \<le> t) ys = filter (\<lambda>z. z \<le> u) ys"
    by (rule filter_cong) (auto simp: same)
  ultimately have eq: "\<bar>ecdf xs t - ecdf ys t\<bar> = \<bar>ecdf xs u - ecdf ys u\<bar>"
    by (simp add: ecdf_def)
  have "\<bar>ecdf xs u - ecdf ys u\<bar> \<in> set (map (\<lambda>t. \<bar>ecdf xs t - ecdf ys t\<bar>) (xs @ ys))"
    using u_mem by (simp only: set_map) (rule imageI)
  then have "\<bar>ecdf xs u - ecdf ys u\<bar> \<le> ks_distance xs ys"
    unfolding ks_distance_def by (rule fold_max_mem)
  with eq show ?thesis by simp
qed

lemma ks_distance_attained:
  assumes "xs \<noteq> []" "ys \<noteq> []"
  shows "\<exists>t. ks_distance xs ys = \<bar>ecdf xs t - ecdf ys t\<bar>"
proof -
  let ?gaps = "map (\<lambda>t. \<bar>ecdf xs t - ecdf ys t\<bar>) (xs @ ys)"
  from fold_max_in [of ?gaps 0] have "ks_distance xs ys = 0 \<or> ks_distance xs ys \<in> set ?gaps"
    by (simp add: ks_distance_def)
  then show ?thesis
  proof
    assume z: "ks_distance xs ys = 0"
    define m where "m = Max (set (xs @ ys))"
    have "\<forall>z \<in> set (xs @ ys). z \<le> m" unfolding m_def by simp
    then have "filter (\<lambda>z. z \<le> m) xs = xs" "filter (\<lambda>z. z \<le> m) ys = ys"
      by (auto intro: filter_True)
    with assms have "\<bar>ecdf xs m - ecdf ys m\<bar> = 0" by (simp add: ecdf_def)
    with z show ?thesis by auto
  next
    assume "ks_distance xs ys \<in> set ?gaps"
    then show ?thesis by auto
  qed
qed

lemma distinct_feature_columns: "distinct feature_columns"
  by (simp add: feature_columns_def)

lemma length_feature_columns: "length feature_columns = 4"
  by (simp add: feature_columns_def)

text \<open>The shape of a successful run.\<close>

lemma analysis_Inr:
  assumes "analysis ks rr rp = Inr report"
  obtains rd pd results score_sum significant where
    "rr = Inr rd" "rp = Inr pd"
    "feature_loop ks rd (window pd) feature_columns ([], 0, 0) = Inr (results, score_sum, significant)"
    "drift_analysis report =
       \<lparr> overall_drift_score = score_sum / 4,
         drift_severity = severity (score_sum / 4),
         significant_drifts = significant,
         total_features = 4,
         feature_analysis = results \<rparr>"
    "data_summary report =
       \<lparr> reference_samples = len rd, production_samples = len (window pd), analysis_limit = 100 \<rparr>"
    "recommendations report = build_recommendations significant (score_sum / 4)"
    "monitoring_status report =
       \<lparr> level = monitoring_level (score_sum / 4),
         requires_attention = (significant > 0 \<or> score_sum / 4 > 0.3) \<rparr>"
proof -
  from assms obtain rd where rr: "rr = Inr rd"
    by (cases rr) (simp_all add: analysis_def)
  from assms rr obtain pd where rp: "rp = Inr pd"
    by (cases rp) (simp_all add: analysis_def)
  from assms rr rp obtain v where
    loop: "feature_loop ks rd (window pd) feature_columns ([], 0, 0) = Inr v"
    by (cases "feature_loop ks rd (window pd) feature_columns ([], 0, 0)")
       (simp_all add: analysis_def Let_def)
  obtain results score_sum significant where v: "v = (results, score_sum, significant)"
    by (cases v) auto
  have rep: "report =
     \<lparr> drift_analysis =
         \<lparr> overall_drift_score = score_sum / 4,
           drift_severity = severity (score_sum / 4),
           significant_drifts = significant,
           total_features = 4,
           feature_analysis = results \<rparr>,
       data_summary =
         \<lparr> reference_samples = len rd, production_samples = len (window pd),
           analysis_limit = 100 \<rparr>,
       recommendations = build_recommendations significant (score_sum / 4),
       monitoring_status =
         \<lparr> level = monitoring_level (score_sum / 4),
           requires_attention = (significant > 0 \<or> score_sum / 4 > 0.3) \<rparr> \<rparr>"
    using assms rr rp loop v
    by (auto simp add: analysis_def Let_def length_feature_columns)
  show thesis
    by (rule that [OF rr rp loop [unfolded v]]) (simp_all add: rep)
qed

lemma analysis_features:
  assumes "analysis ks rr rp = Inr report"
  obtains rd pd new where
    "rr = Inr rd" "rp = Inr pd"
    "feature_analysis (drift_analysis report) = new"
    "map fst new = feature_columns"
    "overall_drift_score (drift_analysis report) = sum_list (map (\<lambda>e. drift_score (snd e)) new) / 4"
    "significant_drifts (drift_analysis report) = int (length (filter (\<lambda>e. is_significant (snd e)) new))"
    "list_all (\<lambda>(f, r). \<exists>xs ys d p. getitem rd f = Inr xs \<and> getitem (window pd) f = Inr ys \<and>
        ks xs ys = Inr (d, p) \<and> r = feature_result xs ys d p) new"
proof -
  from assms obtain rd pd results score_sum significant where
    a: "rr = Inr rd" "rp = Inr pd"
    "feature_loop ks rd (window pd) feature_columns ([], 0, 0) = Inr (results, score_sum, significant)"
    "drift_analysis report =
       \<lparr> overall_drift_score = score_sum / 4,
         drift_severity = severity (score_sum / 4),
         significant_drifts = significant,
         total_features = 4,
         feature_analysis = results \<rparr>"
    by (rule analysis_Inr)
  from feature_loop_Inr [OF a(3) distinct_feature_columns]
  obtain new where n: "results = new" "map fst new = feature_columns"
    "score_sum = sum_list (map (\<lambda>e. drift_score (snd e)) new)"
    "significant = int (length (filter (\<lambda>e. is_significant (snd e)) new))"
    "list_all (\<lambda>(f, r). \<exists>xs ys d p. getitem rd f = Inr xs \<and> getitem (window pd) f = Inr ys \<and>
        ks xs ys = Inr (d, p) \<and> r = feature_result xs ys d p) new"
    by auto
  show thesis
    by (rule that [OF a(1,2) _ n(2)]) (use a(4) n in simp_all)
qed

section \<open>The sample tables, evaluated\<close>

lemma getitem_reference_two:
  "getitem reference_two ''sepal_length'' = Inr [46, 47]"
  "getitem reference_two ''sepal_width'' = Inr [30, 30]"
  "getitem reference_two ''petal_length'' = Inr [14, 14]"
  "getitem reference_two ''petal_width'' = Inr [2, 2]"
  by (simp_all add: getitem_def reference_two_def)

lemma getitem_production_two:
  "getitem production_two ''sepal_length'' = Inr [49, 50]"
  "getitem production_two ''sepal_width'' = Inr [30, 30]"
  "getitem production_two ''petal_length'' = Inr [14, 14]"
  "getitem production_two ''petal_width'' = Inr [2, 2]"
  by (simp_all add: getitem_def production_two_def)

lemma window_small: "len df \<le> 100 \<Longrightarrow> window df = df"
  by (simp add: window_def)

lemma window_samples:
  "window reference_two = reference_two"
  "window production_two = production_two"
  "window production_no_petal_width = production_no_petal_width"
  "window production_empty = production_empty"
  by (simp_all add: window_def len_def reference_two_def production_two_def
        production_no_petal_width_def production_empty_def)

lemma ks_distance_shifted: "ks_distance [46, 47] [49, 50] = 1"
  by (simp add: ks_distance_def ecdf_def)

lemma splits_shifted:
  "splits [46, 47, 49, 50::real] (Suc (Suc 0)) =
     [([46, 47], [49, 50]), ([46, 49], [47, 50]), ([46, 50], [47, 49]),
      ([47, 49], [46, 50]), ([47, 50], [46, 49]), ([49, 50], [46, 47])]"
  by simp

lemma ks_p_value_shifted: "ks_p_value [46, 47] [49, 50] = 1 / 3"
  by (simp add: ks_p_value_def ks_distance_shifted splits_shifted)
     (simp add: ks_distance_def ecdf_def)

lemma ks_2samp_shifted: "ks_2samp [46, 47] [49, 50] = Inr (1, 1 / 3)"
  by (simp add: ks_2samp_def ks_distance_shifted ks_p_value_shifted)

lemma feature_loop_shifted:
  "feature_loop ks_2samp reference_two production_two feature_columns ([], 0, 0) =
     Inr ([(''sepal_length'', feature_result [46, 47] [49, 50] 1 (1 / 3)),
           (''sepal_width'', feature_result [30, 30] [30, 30] 0 1),
           (''petal_length'', feature_result [14, 14] [14, 14] 0 1),
           (''petal_width'', feature_result [2, 2] [2, 2] 0 1)], 1, 0)"
  by (simp add: feature_columns_def getitem_reference_two getitem_production_two
        ks_2samp_shifted ks_2samp_identical)

lemma feature_loop_same:
  "feature_loop ks_2samp reference_two reference_two feature_columns ([], 0, 0) =
     Inr ([(''sepal_length'', feature_result [46, 47] [46, 47] 0 1),
           (''sepal_width'', feature_result [30, 30] [30, 30] 0 1),
           (''petal_length'', feature_result [14, 14] [14, 14] 0 1),
           (''petal_width'', feature_result [2, 2] [2, 2] 0 1)], 0, 0)"
  by (simp add: feature_columns_def getitem_reference_two ks_2samp_identical)

lemma feature_loop_constant:
  "feature_loop (constant_test d p) reference_two production_two feature_columns ([], 0, 0) =
     Inr ([(''sepal_length'', feature_result [46, 47] [49, 50] d p),
           (''sepal_width'', feature_result [30, 30] [30, 30] d p),
           (''petal_length'', feature_result [14, 14] [14, 14] d p),
           (''petal_width'', feature_result [2, 2] [2, 2] d p)],
          4 * min (d * 2) 1, if p < 0.05 then 4 else 0)"
  by (simp add: feature_columns_def getitem_reference_two getitem_production_two
        constant_test_def)

text \<open>The report of a run whose loop is known.\<close>

lemma analysis_of_loop:
  "feature_loop ks rd (window pd) feature_columns ([], 0, 0) = Inr (results, score_sum, significant)
   \<Longrightarrow> analysis ks (Inr rd) (Inr pd) =
     Inr \<lparr> drift_analysis =
             \<lparr> overall_drift_score = score_sum / 4,
               drift_severity = severity (score_sum / 4),
               significant_drifts = significant,
               total_features = 4,
               feature_analysis = results \<rparr>,
           data_summary =
             \<lparr> reference_samples = len rd, production_samples = len (window pd),
               analysis_limit = 100 \<rparr>,
           recommendations = build_recommendations significant (score_sum / 4),
           monitoring_status =
             \<lparr> level = monitoring_level (score_sum / 4),
               requires_attention = (significant > 0 \<or> score_sum / 4 > 0.3) \<rparr> \<rparr>"
  by (auto simp add: analysis_def Let_def length_feature_columns)

lemma len_samples:
  "len reference_two = 2" "len production_two = 2"
  "len production_no_petal_width = 2" "len production_empty = 0"
  by (simp_all add: len_def reference_two_def production_two_def
        production_no_petal_width_def production_empty_def)

lemma analysis_constant:
  "analysis (constant_test d p) (Inr reference_two) (Inr production_two) =
     Inr \<lparr> drift_analysis =
             \<lparr> overall_drift_score = min (d * 2) 1,
               drift_severity = severity (min (d * 2) 1),
               significant_drifts = (if p < 0.05 then 4 else 0),
               total_features = 4,
               feature_analysis =
                 [(''sepal_length'', feature_result [46, 47] [49, 50] d p),
                  (''sepal_width'', feature_result [30, 30] [30, 30] d p),
                  (''petal_length'', feature_result [14, 14] [14, 14] d p),
                  (''petal_width'', feature_result [2, 2] [2, 2] d p)] \<rparr>,
           data_summary =
             \<lparr> reference_samples = 2, production_samples = 2, analysis_limit = 100 \<rparr>,
           recommendations =
             build_recommendations (if p < 0.05 then 4 else 0) (min (d * 2) 1),
           monitoring_status =
             \<lparr> level = monitoring_level (min (d * 2) 1),
               requires_attention = ((if p < 0.05 then (4::int) else 0) > 0 \<or> min (d * 2) 1 > 0.3) \<rparr> \<rparr>"
proof -
  have "feature_loop (constant_test d p) reference_two (window production_two) feature_columns
      ([], 0, 0) =
     Inr ([(''sepal_length'', feature_result [46, 47] [49, 50] d p),
           (''sepal_width'', feature_result [30, 30] [30, 30] d p),
           (''petal_length'', feature_result [14, 14] [14, 14] d p),
           (''petal_width'', feature_result [2, 2] [2, 2] d p)],
          4 * min (d * 2) 1, if p < 0.05 then 4 else 0)"
    by (simp only: window_samples feature_loop_constant)
  from analysis_of_loop [OF this] show ?thesis
    by (simp add: window_samples len_samples)
qed

lemma analysis_shifted:
  "analysis ks_2samp (Inr reference_two) (Inr production_two) =
     Inr \<lparr> drift_analysis =
             \<lparr> overall_drift_score = 1 / 4,
               drift_severity = severity (1 / 4),
               significant_drifts = 0,
               total_features = 4,
               feature_analysis =
                 [(''sepal_length'', feature_result [46, 47] [49, 50] 1 (1 / 3)),
                  (''sepal_width'', feature_result [30, 30] [30, 30] 0 1),
                  (''petal_length'', feature_result [14, 14] [14, 14] 0 1),
                  (''petal_width'', feature_result [2, 2] [2, 2] 0 1)] \<rparr>,
           data_summary =
             \<lparr> reference_samples = 2, production_samples = 2, analysis_limit = 100 \<rparr>,
           recommendations = build_recommendations 0 (1 / 4),
           monitoring_status =
             \<lparr> level = monitoring_level (1 / 4), requires_attention = False \<rparr> \<rparr>"
proof -
  have "feature_loop ks_2samp reference_two (window production_two) feature_columns ([], 0, 0) =
     Inr ([(''sepal_length'', feature_result [46, 47] [49, 50] 1 (1 / 3)),
           (''sepal_width'', feature_result [30, 30] [30, 30] 0 1),
           (''petal_length'', feature_result [14, 14] [14, 14] 0 1),
           (''petal_width'', feature_result [2, 2] [2, 2] 0 1)], 1, 0)"
    by (simp only: window_samples feature_loop_shifted)
  from analysis_of_loop [OF this] show ?thesis
    by (simp add: window_samples len_samples)
qed

lemma analysis_same:
  "analysis ks_2samp (Inr reference_two) (Inr reference_two) =
     Inr \<lparr> drift_analysis =
             \<lparr> overall_drift_score = 0,
               drift_severity = severity 0,
               significant_drifts = 0,
               total_features = 4,
               feature_analysis =
                 [(''sepal_length'', feature_result [46, 47] [46, 47] 0 1),
                  (''sepal_width'', feature_result [30, 30] [30, 30] 0 1),
                  (''petal_length'', feature_result [14, 14] [14, 14] 0 1),
                  (''petal_width'', feature_result [2, 2] [2, 2] 0 1)] \<rparr>,
           data_summary =
             \<lparr> reference_samples = 2, production_samples = 2, analysis_limit = 100 \<rparr>,
           recommendations = build_recommendations 0 0,
           monitoring_status =
             \<lparr> level = monitoring_level 0, requires_attention = False \<rparr> \<rparr>"
proof -
  have "feature_loop ks_2samp reference_two (window reference_two) feature_columns ([], 0, 0) =
     Inr ([(''sepal_length'', feature_result [46, 47] [46, 47] 0 1),
           (''sepal_width'', feature_result [30, 30] [30, 30] 0 1),
           (''petal_length'', feature_result [14, 14] [14, 14] 0 1),
           (''petal_width'', feature_result [2, 2] [2, 2] 0 1)], 0, 0)"
    by (simp only: window_samples feature_loop_same)
  from analysis_of_loop [OF this] show ?thesis
    by (simp add: window_samples len_samples)
qed

text \<open>Windowing, column by column.\<close>

lemma columns_window: "columns (window df) = columns df"
  by (simp add: window_def tail_def)

lemma rows_window: "rows (window df) = drop (len df - min (len df) 100) (rows df)"
  by (simp add: window_def tail_def len_def min_def)

lemma len_window: "len (window df) = min (len df) 100"
  by (simp add: rows_window len_def)

lemma getitem_window:
  "getitem df f = Inr xs \<Longrightarrow>
   getitem (window df) f = Inr (drop (length xs - min (length xs) 100) xs)"
  by (auto simp: getitem_def columns_window rows_window len_def drop_map split: if_splits)

lemma getitem_window_Inr:
  "getitem (window df) f = Inr ys \<Longrightarrow>
   \<exists>xs. getitem df f = Inr xs \<and> ys = drop (length xs - min (length xs) 100) xs"
  by (auto simp: getitem_def columns_window rows_window len_def drop_map split: if_splits)

lemma getitem_length: "getitem df f = Inr xs \<Longrightarrow> length xs = len df"
  by (auto simp: getitem_def len_def split: if_splits)

text \<open>Every configured feature has its entry, computed from the two columns.\<close>

lemma analysis_entry:
  assumes "analysis ks rr rp = Inr report" and "f \<in> set feature_columns"
  obtains rd pd xs ys d p where
    "rr = Inr rd" "rp = Inr pd"
    "getitem rd f = Inr xs" "getitem (window pd) f = Inr ys" "ks xs ys = Inr (d, p)"
    "map_of (feature_analysis (drift_analysis report)) f = Some (feature_result xs ys d p)"
proof -
  from assms(1) obtain rd pd new where
    a: "rr = Inr rd" "rp = Inr pd" "feature_analysis (drift_analysis report) = new"
    "map fst new = feature_columns"
    "list_all (\<lambda>(f, r). \<exists>xs ys d p. getitem rd f = Inr xs \<and> getitem (window pd) f = Inr ys \<and>
        ks xs ys = Inr (d, p) \<and> r = feature_result xs ys d p) new"
    by (rule analysis_features)
  from a(4) assms(2) have "f \<in> fst ` set new" by (metis set_map)
  then obtain r where mem: "(f, r) \<in> set new" by force
  have "distinct (map fst new)" by (simp add: a(4) distinct_feature_columns)
  with mem have look: "map_of new f = Some r" by simp
  from a(5) mem obtain xs ys d p where
    "getitem rd f = Inr xs" "getitem (window pd) f = Inr ys" "ks xs ys = Inr (d, p)"
    "r = feature_result xs ys d p"
    by (auto simp: list_all_iff)
  with look a(1,2,3) show thesis by (auto intro: that)
qed

text \<open>A run yields a report exactly when the whole pipeline succeeds.\<close>

lemma analysis_isl: "\<not> isl (analysis ks rr rp) \<longleftrightarrow> pipeline_succeeds ks rr rp"
proof (cases rr)
  case (Inl e)
  then show ?thesis by (simp add: analysis_def pipeline_succeeds_def)
next
  case rd: (Inr rd)
  show ?thesis
  proof (cases rp)
    case (Inl e)
    then show ?thesis using rd by (simp add: analysis_def pipeline_succeeds_def)
  next
    case pd: (Inr pd)
    have "\<not> isl (analysis ks rr rp) \<longleftrightarrow>
          \<not> isl (feature_loop ks rd (window pd) feature_columns ([], 0, 0))"
      unfolding rd pd
      by (cases "feature_loop ks rd (window pd) feature_columns ([], 0, 0)")
         (auto simp: analysis_def Let_def)
    then show ?thesis
      by (simp add: feature_loop_isl pipeline_succeeds_def rd pd)
  qed
qed

lemma analysis_succeeds:
  "pipeline_succeeds ks rr rp \<Longrightarrow> \<exists>report. analysis ks rr rp = Inr report"
  using analysis_isl [of ks rr rp] by (cases "analysis ks rr rp") auto

lemma analysis_fails:
  "\<not> pipeline_succeeds ks rr rp \<Longrightarrow> \<exists>e. analysis ks rr rp = Inl e"
  using analysis_isl [of ks rr rp] by (cases "analysis ks rr rp") auto

lemma len_numbered: "len (numbered n) = n"
  by (simp add: len_def numbered_def)

lemma getitem_numbered:
  "getitem (numbered n) ''sepal_length'' = Inr (map real [0..<n])"
  "getitem (numbered n) ''sepal_width'' = Inr (map (\<lambda>i. 30) [0..<n])"
  "getitem (numbered n) ''petal_length'' = Inr (map (\<lambda>i. 14) [0..<n])"
  "getitem (numbered n) ''petal_width'' = Inr (map (\<lambda>i. 2) [0..<n])"
  by (simp_all add: getitem_def numbered_def comp_def)

lemma pipeline_numbered:
  "pipeline_succeeds (constant_test d p) (Inr reference_two) (Inr (numbered n))"
  unfolding pipeline_succeeds_def
proof (intro exI conjI ballI)
  fix feature assume "feature \<in> set feature_columns"
  then have "feature \<in> set (columns reference_two)" "feature \<in> set (columns (numbered n))"
    by (simp_all add: feature_columns_def reference_two_def numbered_def)
  then show "getitem reference_two feature =
       Inr (map (\<lambda>r. r ! index_of feature (columns reference_two)) (rows reference_two))"
    "getitem (window (numbered n)) feature =
       Inr (map (\<lambda>r. r ! index_of feature (columns (numbered n))) (rows (window (numbered n))))"
    by (simp_all add: getitem_def columns_window)
  show "constant_test d p
      (map (\<lambda>r. r ! index_of feature (columns reference_two)) (rows reference_two))
      (map (\<lambda>r. r ! index_of feature (columns (numbered n))) (rows (window (numbered n)))) =
       Inr (d, p)"
    by (simp add: constant_test_def)
qed simp_all

lemma analysis_no_petal_width:
  "analysis ks_2samp (Inr reference_two) (Inr production_no_petal_width) =
     Inl (KeyError ''petal_width'')"
proof -
  have g: "getitem production_no_petal_width ''sepal_length'' = Inr [49, 50]"
    "getitem production_no_petal_width ''sepal_width'' = Inr [30, 30]"
    "getitem production_no_petal_width ''petal_length'' = Inr [14, 14]"
    "getitem production_no_petal_width ''petal_width'' = Inl (KeyError ''petal_width'')"
    by (simp_all add: getitem_def production_no_petal_width_def)
  show ?thesis
    by (simp add: analysis_def window_samples feature_columns_def getitem_reference_two g
          ks_2samp_shifted ks_2samp_identical)
qed

lemma analysis_production_empty:
  "analysis ks_2samp (Inr reference_two) (Inr production_empty) =
     Inl (ValueError ''Data passed to ks_2samp must not be empty'')"
proof -
  have g: "getitem production_empty ''sepal_length'' = Inr []"
    by (simp add: getitem_def production_empty_def)
  show ?thesis
    by (simp add: analysis_def window_samples feature_columns_def getitem_reference_two g
          ks_2samp_empty)
qed

text \<open>The recommendation list.\<close>

lemma build_recommendations_eq:
  "build_recommendations significant score =
     (if significant > 0 then [significant_drift_message significant, retrain_message] else []) @
     (if score > 0.3 then [monitor_message] else []) @
     (if score < 0.1 then [stable_message] else [])"
  by (simp add: build_recommendations_def)

lemma messages_distinct:
  "monitor_message \<noteq> stable_message" "monitor_message \<noteq> retrain_message"
  "monitor_message \<noteq> significant_drift_message n"
  "stable_message \<noteq> retrain_message" "stable_message \<noteq> significant_drift_message n"
  "retrain_message \<noteq> significant_drift_message n"
  by (simp_all add: monitor_message_def stable_message_def retrain_message_def
        significant_drift_message_def)

lemma monitor_mem:
  "monitor_message \<in> set (build_recommendations significant score) \<longleftrightarrow> score > 0.3"
  using messages_distinct by (auto simp: build_recommendations_eq)

lemma stable_mem:
  "stable_message \<in> set (build_recommendations significant score) \<longleftrightarrow> score < 0.1"
  using messages_distinct by (auto simp: build_recommendations_eq)

lemma recommendations_constant:
  "\<exists>report. analysis (constant_test d p) (Inr reference_two) (Inr production_two) = Inr report \<and>
     significant_drifts (drift_analysis report) = (if p < 0.05 then 4 else 0) \<and>
     overall_drift_score (drift_analysis report) = min (d * 2) 1 \<and>
     recommendations report = build_recommendations (if p < 0.05 then 4 else 0) (min (d * 2) 1)"
  by (simp add: analysis_constant)

lemma str_int_4: "str_int 4 = ''4''"
  by code_simp

section \<open>Double precision\<close>

text \<open>Rounding moves a number by at most half the spacing of the doubles around it.\<close>

lemma round_half_even_error: "\<bar>of_int (round_half_even y) - y\<bar> \<le> 1 / 2"
  unfolding round_half_even_def Let_def by (auto; linarith)

lemma quantum_pos: "0 < quantum x"
  by (simp add: quantum_def)

lemma round_double_error: "\<bar>round_double x - x\<bar> \<le> quantum x / 2"
proof -
  let ?u = "quantum x"
  have u: "0 < ?u" by (rule quantum_pos)
  have "round_double x - x = (of_int (round_half_even (x / ?u)) - x / ?u) * ?u"
    using u by (simp add: round_double_def field_simps)
  then have "\<bar>round_double x - x\<bar> = \<bar>of_int (round_half_even (x / ?u)) - x / ?u\<bar> * ?u"
    using u by (simp add: abs_mult)
  also have "\<dots> \<le> (1 / 2) * ?u"
    using round_half_even_error [of "x / ?u"] u by (intro mult_right_mono) simp_all
  finally show ?thesis by simp
qed

lemma halvings_small: "x < 8 \<Longrightarrow> halvings n x \<le> 2"
  by (subst halvings.simps, subst halvings.simps, subst halvings.simps) auto

lemma exponent_small: "\<bar>x\<bar> < 8 \<Longrightarrow> exponent x \<le> 2"
  using halvings_small [of "\<bar>x\<bar>" 1023] by (auto simp: exponent_def)

lemma quantum_small: "\<bar>x\<bar> < 8 \<Longrightarrow> quantum x \<le> 1 / 2 ^ 50"
proof -
  assume "\<bar>x\<bar> < 8"
  then have "exponent x - 52 \<le> - 50" using exponent_small [of x] by simp
  then have "(2::real) powi (exponent x - 52) \<le> 2 powi (- 50)"
    by (intro power_int_increasing) simp_all
  then show ?thesis by (simp add: quantum_def power_int_minus field_simps)
qed

lemma round_double_near: "\<bar>x\<bar> < 8 \<Longrightarrow> \<bar>round_double x - x\<bar> \<le> 1 / 2 ^ 51"
  using round_double_error [of x] quantum_small [of x] by simp

lemma halvings_bounds:
  "1 \<le> x \<Longrightarrow> x < 2 ^ Suc n \<Longrightarrow> 2 ^ halvings n x \<le> x \<and> x < 2 ^ Suc (halvings n x)"
proof (induction n arbitrary: x)
  case 0
  then show ?case by (simp add: halvings.simps)
next
  case (Suc n)
  show ?case
  proof (cases "x < 2")
    case True
    with Suc.prems show ?thesis by (simp add: halvings.simps)
  next
    case False
    then have h: "halvings (Suc n) x = Suc (halvings n (x / 2))"
      by (subst halvings.simps) simp
    from False Suc.prems have "1 \<le> x / 2" "x / 2 < 2 ^ Suc n" by simp_all
    from Suc.IH [OF this] show ?thesis unfolding h by simp
  qed
qed

lemma doublings_bounds:
  "0 < x \<Longrightarrow> x < 1 \<Longrightarrow> 1 \<le> x * 2 ^ n \<Longrightarrow>
   1 \<le> x * 2 ^ doublings n x \<and> x * 2 ^ doublings n x < 2"
proof (induction n arbitrary: x)
  case 0
  then show ?case by simp
next
  case (Suc n)
  have h: "doublings (Suc n) x = Suc (doublings n (x * 2))"
    using Suc.prems(2) by (subst doublings.simps) simp
  show ?case
  proof (cases "x * 2 < 1")
    case True
    from Suc.prems True have "0 < x * 2" "x * 2 < 1" "1 \<le> x * 2 * 2 ^ n"
      by (simp_all add: mult.assoc)
    from Suc.IH [OF this] show ?thesis unfolding h by (simp add: mult.assoc)
  next
    case False
    then have "doublings n (x * 2) = 0" by (subst doublings.simps) simp
    with False Suc.prems show ?thesis unfolding h by simp
  qed
qed

lemma doublings_exhausted: "x * 2 ^ n < 1 \<Longrightarrow> 0 \<le> x \<Longrightarrow> doublings n x = n"
proof (induction n arbitrary: x)
  case 0
  then show ?case by (simp add: doublings.simps)
next
  case (Suc n)
  have "(1::real) \<le> 2 ^ Suc n" by (rule one_le_power) simp
  with Suc.prems(2) have "x * 1 \<le> x * 2 ^ Suc n" by (rule mult_left_mono [rotated])
  then have "x \<le> x * 2 ^ Suc n" by simp
  with Suc.prems have x1: "x < 1" by simp
  from Suc.prems have "x * 2 * 2 ^ n < 1" "0 \<le> x * 2" by (simp_all add: mult.assoc)
  from Suc.IH [OF this] x1 show ?case by (subst doublings.simps) simp
qed

text \<open>
  The exponent is the binary exponent of a normal double's magnitude, and the smallest
  normal exponent below that range.
\<close>

lemma exponent_normal:
  assumes "1 / 2 ^ 1022 \<le> \<bar>x\<bar>" "\<bar>x\<bar> < 2 ^ 1024"
  shows "2 powi exponent x \<le> \<bar>x\<bar> \<and> \<bar>x\<bar> < 2 powi (exponent x + 1)"
proof (cases "1 \<le> \<bar>x\<bar>")
  case True
  from halvings_bounds [OF True, of 1023] assms(2)
  have "2 ^ halvings 1023 \<bar>x\<bar> \<le> \<bar>x\<bar> \<and> \<bar>x\<bar> < 2 ^ Suc (halvings 1023 \<bar>x\<bar>)" by simp
  then show ?thesis using True
    by (simp add: exponent_def power_int_add)
next
  case False
  then have x1: "\<bar>x\<bar> < 1" by simp
  have "(0::real) < 1 / 2 ^ 1022" by simp
  with assms(1) have x0: "0 < \<bar>x\<bar>" by linarith
  have "1 \<le> \<bar>x\<bar> * 2 ^ 1022" using assms(1) by (simp add: field_simps)
  from doublings_bounds [OF x0 x1 this]
  have b: "1 \<le> \<bar>x\<bar> * 2 ^ doublings 1022 \<bar>x\<bar>" "\<bar>x\<bar> * 2 ^ doublings 1022 \<bar>x\<bar> < 2"
    by simp_all
  define k where "k = doublings 1022 \<bar>x\<bar>"
  have e: "exponent x = - int k" using False by (simp add: exponent_def k_def)
  have p1: "(2::real) powi (- int k) = 1 / 2 ^ k"
    by (simp add: power_int_minus field_simps)
  have p2: "(2::real) powi (- int k + 1) = 2 / 2 ^ k"
    using power_int_add [of "2::real" "- int k" 1] p1 by simp
  note p = p1 p2
  from b have "1 / 2 ^ k \<le> \<bar>x\<bar>" "\<bar>x\<bar> < 2 / 2 ^ k"
    unfolding k_def [symmetric] by (simp_all add: field_simps)
  then show ?thesis unfolding e p by simp
qed

lemma exponent_subnormal: "\<bar>x\<bar> < 1 / 2 ^ 1022 \<Longrightarrow> exponent x = - 1022"
proof -
  assume a: "\<bar>x\<bar> < 1 / 2 ^ 1022"
  then have "\<bar>x\<bar> * 2 ^ 1022 < 1" by (simp add: field_simps)
  then have "doublings 1022 \<bar>x\<bar> = 1022" by (rule doublings_exhausted) simp
  moreover have "(1::real) / 2 ^ 1022 \<le> 1" by simp
  with a have "\<bar>x\<bar> < 1" by linarith
  ultimately show ?thesis by (simp add: exponent_def)
qed

text \<open>Sample roundings: thirds, a negative tenth, seven tenths, three ties.\<close>

lemma round_double_samples:
  "round_double (1 / 3) = 6004799503160661 / 2 ^ 54"
  "round_double (2 / 3) = 6004799503160661 / 2 ^ 53"
  "round_double (- 1 / 10) = - 3602879701896397 / 2 ^ 55"
  "round_double (7 / 10) = 3152519739159347 / 2 ^ 52"
  "round_double (1 - 1 / 2 ^ 54) = 1"
  "round_double (1 + 1 / 2 ^ 53) = 1"
  "round_double (1 + 3 / 2 ^ 53) = 1 + 1 / 2 ^ 51"
  "round_double (123456789 / 1000) = 8483885939586761 / 2 ^ 36"
  "round_double 3 = 3"
  by code_simp+

text \<open>The loop and the report in double precision.\<close>

lemma feature_loop_double_Inr:
  "feature_loop_double ks rd pd fs (res, tot, sig) = Inr (res', tot', sig') \<Longrightarrow>
   distinct fs \<Longrightarrow> set fs \<inter> fst ` set res = {} \<Longrightarrow>
   \<exists>new. res' = res @ new \<and> map fst new = fs \<and>
     tot' = foldl (\<lambda>t e. round_double (t + drift_score (snd e))) tot new \<and>
     list_all (\<lambda>(f, r). \<exists>xs ys d p. getitem rd f = Inr xs \<and> getitem pd f = Inr ys \<and>
        ks xs ys = Inr (d, p) \<and> r = feature_result xs ys d p) new"
proof (induction fs arbitrary: res tot sig)
  case Nil
  then show ?case by simp
next
  case (Cons f fs)
  from Cons.prems(1) obtain xs ys d p where
    gx: "getitem rd f = Inr xs" and gy: "getitem pd f = Inr ys" and k: "ks xs ys = Inr (d, p)"
    and rest: "feature_loop_double ks rd pd fs
       (AList.update f (feature_result xs ys d p) res, round_double (tot + min (d * 2) 1),
        if p < 0.05 then sig + 1 else sig) = Inr (res', tot', sig')"
    by (auto split: sum.splits)
  have fresh: "f \<notin> fst ` set res" using Cons.prems(3) by auto
  let ?r = "feature_result xs ys d p"
  have upd: "AList.update f ?r res = res @ [(f, ?r)]" using fresh by (rule update_fresh)
  have disj: "set fs \<inter> fst ` set (res @ [(f, ?r)]) = {}"
    using Cons.prems(2,3) by auto
  have dfs: "distinct fs" using Cons.prems(2) by simp
  from Cons.IH [OF rest [unfolded upd] dfs disj]
  obtain new where n: "res' = (res @ [(f, ?r)]) @ new" "map fst new = fs"
     "tot' = foldl (\<lambda>t e. round_double (t + drift_score (snd e)))
               (round_double (tot + min (d * 2) 1)) new"
     "list_all (\<lambda>(f, r). \<exists>xs ys d p. getitem rd f = Inr xs \<and> getitem pd f = Inr ys \<and>
        ks xs ys = Inr (d, p) \<and> r = feature_result xs ys d p) new"
    by blast
  show ?case
    apply (rule exI [of _ "(f, ?r) # new"])
    using n gx gy k by (auto simp: feature_result_def)
qed

lemma feature_loop_double_isl:
  "\<not> isl (feature_loop_double ks rd pd fs v) \<longleftrightarrow>
   (\<forall>f\<in>set fs. \<exists>xs ys d pv.
      getitem rd f = Inr xs \<and> getitem pd f = Inr ys \<and> ks xs ys = Inr (d, pv))"
proof (induction fs arbitrary: v)
  case Nil
  then show ?case by (cases v) auto
next
  case (Cons f fs)
  show ?case
    by (cases v) (auto simp: Cons.IH split: sum.splits)
qed

lemma analysis_double_isl:
  "\<not> isl (analysis_double ks rr rp) \<longleftrightarrow> pipeline_succeeds ks rr rp"
proof (cases rr)
  case (Inl e)
  then show ?thesis by (simp add: analysis_double_def pipeline_succeeds_def)
next
  case rd: (Inr rd)
  show ?thesis
  proof (cases rp)
    case (Inl e)
    then show ?thesis using rd by (simp add: analysis_double_def pipeline_succeeds_def)
  next
    case pd: (Inr pd)
    have "\<not> isl (analysis_double ks rr rp) \<longleftrightarrow>
          \<not> isl (feature_loop_double ks rd (window pd) feature_columns ([], 0, 0))"
      unfolding rd pd
      by (cases "feature_loop_double ks rd (window pd) feature_columns ([], 0, 0)")
         (auto simp: analysis_double_def Let_def)
    then show ?thesis
      by (simp add: feature_loop_double_isl pipeline_succeeds_def rd pd)
  qed
qed

text \<open>The entries and the score of a double-precision run.\<close>

lemma analysis_double_scores:
  assumes "analysis_double ks rr rp = Inr report"
  obtains rd pd r1 r2 r3 r4 where
    "rr = Inr rd" "rp = Inr pd"
    "feature_analysis (drift_analysis report) =
       [(''sepal_length'', r1), (''sepal_width'', r2),
        (''petal_length'', r3), (''petal_width'', r4)]"
    "overall_drift_score (drift_analysis report) =
       round_double
         (round_double (round_double (round_double (round_double
            (0 + drift_score r1) + drift_score r2) + drift_score r3) + drift_score r4) / 4)"
    "list_all (\<lambda>(f, r). \<exists>xs ys d p. getitem rd f = Inr xs \<and>
        getitem (window pd) f = Inr ys \<and> ks xs ys = Inr (d, p) \<and>
        r = feature_result xs ys d p)
       [(''sepal_length'', r1), (''sepal_width'', r2),
        (''petal_length'', r3), (''petal_width'', r4)]"
proof -
  from assms obtain rd where rr: "rr = Inr rd"
    by (cases rr) (simp_all add: analysis_double_def)
  from assms rr obtain pd where rp: "rp = Inr pd"
    by (cases rp) (simp_all add: analysis_double_def)
  from assms rr rp obtain v where
    loop: "feature_loop_double ks rd (window pd) feature_columns ([], 0, 0) = Inr v"
    by (cases "feature_loop_double ks rd (window pd) feature_columns ([], 0, 0)")
       (simp_all add: analysis_double_def Let_def)
  obtain results score_sum significant where v: "v = (results, score_sum, significant)"
    by (cases v) auto
  have da: "feature_analysis (drift_analysis report) = results"
    "overall_drift_score (drift_analysis report) = round_double (score_sum / 4)"
    using assms rr rp loop v
    by (auto simp add: analysis_double_def Let_def length_feature_columns)
  from feature_loop_double_Inr [OF loop [unfolded v] distinct_feature_columns]
  obtain new where n: "results = new" "map fst new = feature_columns"
    "score_sum = foldl (\<lambda>t e. round_double (t + drift_score (snd e))) 0 new"
    "list_all (\<lambda>(f, r). \<exists>xs ys d p. getitem rd f = Inr xs \<and> getitem (window pd) f = Inr ys \<and>
        ks xs ys = Inr (d, p) \<and> r = feature_result xs ys d p) new"
    by auto
  from n(2) obtain e1 e2 e3 e4 where new: "new = [e1, e2, e3, e4]"
    by (auto simp: feature_columns_def map_eq_Cons_conv)
  with n(2) have shape:
    "new = [(''sepal_length'', snd e1), (''sepal_width'', snd e2),
            (''petal_length'', snd e3), (''petal_width'', snd e4)]"
    by (auto simp: feature_columns_def prod_eq_iff)
  show thesis
  proof (rule that [OF rr rp, of "snd e1" "snd e2" "snd e3" "snd e4"])
    show "feature_analysis (drift_analysis report) =
       [(''sepal_length'', snd e1), (''sepal_width'', snd e2),
        (''petal_length'', snd e3), (''petal_width'', snd e4)]"
      using da(1) n(1) shape by simp
    show "overall_drift_score (drift_analysis report) =
       round_double
         (round_double (round_double (round_double (round_double
            (0 + drift_score (snd e1)) + drift_score (snd e2)) + drift_score (snd e3)) +
            drift_score (snd e4)) / 4)"
      using da(2) n(3) new by simp
    show "list_all (\<lambda>(f, r). \<exists>xs ys d p. getitem rd f = Inr xs \<and>
        getitem (window pd) f = Inr ys \<and> ks xs ys = Inr (d, p) \<and>
        r = feature_result xs ys d p)
       [(''sepal_length'', snd e1), (''sepal_width'', snd e2),
        (''petal_length'', snd e3), (''petal_width'', snd e4)]"
      using n(4) shape by simp
  qed
qed

text \<open>Four rounded additions of scores between 0 and 1, and the rounded quotient.\<close>

lemma rounded_mean_near:
  assumes "0 \<le> s1" "s1 \<le> 1" "0 \<le> s2" "s2 \<le> 1" "0 \<le> s3" "s3 \<le> 1" "0 \<le> s4" "s4 \<le> 1"
  shows "\<bar>round_double
           (round_double (round_double (round_double (round_double
              (0 + s1) + s2) + s3) + s4) / 4) - (s1 + s2 + s3 + s4) / 4\<bar> \<le> 1 / 2 ^ 50"
proof -
  define eps :: real where "eps = 1 / 2 ^ 51"
  have eps: "0 < eps" "eps \<le> 1 / 4" by (simp_all add: eps_def)
  have near: "\<bar>round_double x - x\<bar> \<le> eps" if "\<bar>x\<bar> < 8" for x
    using round_double_near [OF that] by (simp add: eps_def)
  define a1 where "a1 = round_double (0 + s1)"
  define a2 where "a2 = round_double (a1 + s2)"
  define a3 where "a3 = round_double (a2 + s3)"
  define a4 where "a4 = round_double (a3 + s4)"
  define q where "q = round_double (a4 / 4)"
  have e1: "\<bar>a1 - s1\<bar> \<le> eps" unfolding a1_def using near [of "0 + s1"] assms by simp
  have e2: "\<bar>a2 - (a1 + s2)\<bar> \<le> eps" unfolding a2_def
    by (rule near) (use e1 assms eps in linarith)
  have e3: "\<bar>a3 - (a2 + s3)\<bar> \<le> eps" unfolding a3_def
    by (rule near) (use e1 e2 assms eps in linarith)
  have e4: "\<bar>a4 - (a3 + s4)\<bar> \<le> eps" unfolding a4_def
    by (rule near) (use e1 e2 e3 assms eps in linarith)
  have e5: "\<bar>q - a4 / 4\<bar> \<le> eps" unfolding q_def
    by (rule near) (use e1 e2 e3 e4 assms eps in linarith)
  note b = e1 [unfolded abs_le_iff] e2 [unfolded abs_le_iff] e3 [unfolded abs_le_iff]
    e4 [unfolded abs_le_iff] e5 [unfolded abs_le_iff]
  have "q - (s1 + s2 + s3 + s4) / 4 \<le> 2 * eps" using b by (elim conjE) argo
  moreover have "- (q - (s1 + s2 + s3 + s4) / 4) \<le> 2 * eps" using b by (elim conjE) argo
  ultimately have "\<bar>q - (s1 + s2 + s3 + s4) / 4\<bar> \<le> 2 * eps"
    by (simp only: abs_le_iff)
  then show ?thesis
    by (simp add: q_def a4_def a3_def a2_def a1_def eps_def)
qed

text \<open>
  Every other field of the double-precision report is related to its score and its
  counter as in the exact report.
\<close>

lemma analysis_double_fields:
  assumes "analysis_double ks rr rp = Inr report"
  shows "drift_severity (drift_analysis report) =
           severity (overall_drift_score (drift_analysis report))"
    and "level (monitoring_status report) =
           monitoring_level (overall_drift_score (drift_analysis report))"
    and "requires_attention (monitoring_status report) \<longleftrightarrow>
           significant_drifts (drift_analysis report) > 0 \<or>
           overall_drift_score (drift_analysis report) > 0.3"
    and "recommendations report =
           build_recommendations (significant_drifts (drift_analysis report))
             (overall_drift_score (drift_analysis report))"
    and "total_features (drift_analysis report) = 4"
    and "analysis_limit (data_summary report) = 100"
proof -
  from assms obtain rd where rr: "rr = Inr rd"
    by (cases rr) (simp_all add: analysis_double_def)
  from assms rr obtain pd where rp: "rp = Inr pd"
    by (cases rp) (simp_all add: analysis_double_def)
  from assms rr rp obtain v where
    loop: "feature_loop_double ks rd (window pd) feature_columns ([], 0, 0) = Inr v"
    by (cases "feature_loop_double ks rd (window pd) feature_columns ([], 0, 0)")
       (simp_all add: analysis_double_def Let_def)
  obtain results score_sum significant where v: "v = (results, score_sum, significant)"
    by (cases v) auto
  from assms rr rp loop v
  show "drift_severity (drift_analysis report) =
           severity (overall_drift_score (drift_analysis report))"
    and "level (monitoring_status report) =
           monitoring_level (overall_drift_score (drift_analysis report))"
    and "requires_attention (monitoring_status report) \<longleftrightarrow>
           significant_drifts (drift_analysis report) > 0 \<or>
           overall_drift_score (drift_analysis report) > 0.3"
    and "recommendations report =
           build_recommendations (significant_drifts (drift_analysis report))
             (overall_drift_score (drift_analysis report))"
    and "total_features (drift_analysis report) = 4"
    and "analysis_limit (data_summary report) = 100"
    by (auto simp add: analysis_double_def Let_def length_feature_columns)
qed

text \<open>The run on the drifted tables.\<close>

lemma statistic_double:
  "ks_2samp_double xs ys = Inr (d, p) \<Longrightarrow> d = round_double (ks_distance xs ys)"
  by (auto simp: ks_2samp_double_def ks_2samp_def split: if_splits)

lemma ks_2samp_double_returns:
  "xs \<noteq> [] \<Longrightarrow> ys \<noteq> [] \<Longrightarrow>
   ks_2samp_double xs ys = Inr (round_double (ks_distance xs ys), round_double (ks_p_value xs ys))"
  by (simp add: ks_2samp_double_def ks_2samp_def)

lemma getitem_reference_drifted:
  "getitem reference_drifted ''sepal_length'' = Inr [7, 7, 7, 7, 7]"
  "getitem reference_drifted ''sepal_width'' = Inr [3, 3, 4, 5, 5]"
  "getitem reference_drifted ''petal_length'' = Inr [2, 3, 3, 5, 5]"
  "getitem reference_drifted ''petal_width'' = Inr [3, 3, 3, 3, 5]"
  by (simp_all add: getitem_def reference_drifted_def)

lemma window_production_drifted: "window production_drifted = production_drifted"
  by (simp add: window_def len_def production_drifted_def)

lemma getitem_production_drifted:
  "getitem production_drifted ''sepal_length'' = Inr [7, 7]"
  "getitem production_drifted ''sepal_width'' = Inr [3, 5]"
  "getitem production_drifted ''petal_length'' = Inr [3, 5]"
  "getitem production_drifted ''petal_width'' = Inr [3, 5]"
  by (simp_all add: getitem_def production_drifted_def)

lemma ks_distance_drifted:
  "ks_distance [7, 7, 7, 7, 7] [7, 7] = 0"
  "ks_distance [3, 3, 4, 5, 5] [3, 5] = 1 / 10"
  "ks_distance [2, 3, 3, 5, 5] [3, 5] = 1 / 5"
  "ks_distance [3, 3, 3, 3, 5] [3, 5] = 3 / 10"
  by (simp_all add: ks_distance_def ecdf_def)

lemma round_double_0: "round_double 0 = 0"
  by (simp add: round_double_def round_half_even_def)

lemma doubled_statistics:
  "min (round_double (1 / 10) * 2) 1 = 3602879701896397 / 2 ^ 54"
  "min (round_double (1 / 5) * 2) 1 = 3602879701896397 / 2 ^ 53"
  "min (round_double (3 / 10) * 2) 1 = 5404319552844595 / 2 ^ 53"
  by code_simp+

lemma partial_sums_drifted:
  "round_double (0 + 0) = 0"
  "round_double (0 + 3602879701896397 / 2 ^ 54) = 3602879701896397 / 2 ^ 54"
  "round_double (3602879701896397 / 2 ^ 54 + 3602879701896397 / 2 ^ 53) =
     1351079888211149 / 2 ^ 51"
  "round_double (1351079888211149 / 2 ^ 51 + 5404319552844595 / 2 ^ 53) =
     1351079888211149 / 2 ^ 50"
  "round_double (1351079888211149 / 2 ^ 50 / 4) = 1351079888211149 / 2 ^ 52"
  by (simp add: round_double_0) code_simp+

lemma rounded_sum_drifted:
  "round_double
     (round_double (round_double (round_double (round_double
        (0 + 0) + 3602879701896397 / 2 ^ 54) + 3602879701896397 / 2 ^ 53) +
        5404319552844595 / 2 ^ 53) / 4) = 1351079888211149 / 2 ^ 52"
  by (simp only: partial_sums_drifted)

lemma exact_mean_drifted:
  "(0 + 3602879701896397 / 2 ^ 54 + 3602879701896397 / 2 ^ 53 + 5404319552844595 / 2 ^ 53) / 4 =
     (21617278211378381 / 2 ^ 56 :: real)"
  "round_double (21617278211378381 / 2 ^ 56) = 5404319552844595 / 2 ^ 54"
  "(1351079888211149 / 2 ^ 52 :: real) \<noteq> 21617278211378381 / 2 ^ 56"
  "(1351079888211149 / 2 ^ 52 :: real) \<noteq> 5404319552844595 / 2 ^ 54"
  by code_simp+

lemma pipeline_succeedsI:
  "(\<And>f. f \<in> set feature_columns \<Longrightarrow>
      \<exists>xs ys d p. getitem rd f = Inr xs \<and> getitem (window pd) f = Inr ys \<and>
        ks xs ys = Inr (d, p)) \<Longrightarrow>
   pipeline_succeeds ks (Inr rd) (Inr pd)"
  by (auto simp: pipeline_succeeds_def)

lemma pipeline_drifted:
  "pipeline_succeeds ks_2samp_double (Inr reference_drifted) (Inr production_drifted)"
proof (rule pipeline_succeedsI)
  fix f assume "f \<in> set feature_columns"
  then consider "f = ''sepal_length''" | "f = ''sepal_width''"
    | "f = ''petal_length''" | "f = ''petal_width''"
    by (auto simp: feature_columns_def)
  then show "\<exists>xs ys d p. getitem reference_drifted f = Inr xs \<and>
      getitem (window production_drifted) f = Inr ys \<and> ks_2samp_double xs ys = Inr (d, p)"
    by cases
       (simp_all add: window_production_drifted getitem_reference_drifted
          getitem_production_drifted ks_2samp_double_returns)
qed

lemma entry_score:
  "getitem rd f = Inr xs \<Longrightarrow> getitem pd f = Inr ys \<Longrightarrow>
   \<exists>xs' ys' d p. getitem rd f = Inr xs' \<and> getitem pd f = Inr ys' \<and>
     ks_2samp_double xs' ys' = Inr (d, p) \<and> r = feature_result xs' ys' d p \<Longrightarrow>
   drift_score r = min (round_double (ks_distance xs ys) * 2) 1"
  by (auto simp: feature_result_def dest: statistic_double)

lemma analysis_double_drifted:
  assumes "analysis_double ks_2samp_double (Inr reference_drifted) (Inr production_drifted) =
             Inr report"
  obtains r1 r2 r3 r4 where
    "feature_analysis (drift_analysis report) =
       [(''sepal_length'', r1), (''sepal_width'', r2),
        (''petal_length'', r3), (''petal_width'', r4)]"
    "drift_score r1 = 0" "drift_score r2 = 3602879701896397 / 2 ^ 54"
    "drift_score r3 = 3602879701896397 / 2 ^ 53" "drift_score r4 = 5404319552844595 / 2 ^ 53"
    "overall_drift_score (drift_analysis report) = 1351079888211149 / 2 ^ 52"
proof -
  from assms obtain rd pd r1 r2 r3 r4 where
    io: "Inr reference_drifted = (Inr rd :: exn + dataframe)"
        "Inr production_drifted = (Inr pd :: exn + dataframe)"
    and fa: "feature_analysis (drift_analysis report) =
       [(''sepal_length'', r1), (''sepal_width'', r2),
        (''petal_length'', r3), (''petal_width'', r4)]"
    and ov: "overall_drift_score (drift_analysis report) =
       round_double
         (round_double (round_double (round_double (round_double
            (0 + drift_score r1) + drift_score r2) + drift_score r3) + drift_score r4) / 4)"
    and en: "list_all (\<lambda>(f, r). \<exists>xs ys d p. getitem rd f = Inr xs \<and>
        getitem (window pd) f = Inr ys \<and> ks_2samp_double xs ys = Inr (d, p) \<and>
        r = feature_result xs ys d p)
       [(''sepal_length'', r1), (''sepal_width'', r2),
        (''petal_length'', r3), (''petal_width'', r4)]"
    by (rule analysis_double_scores)
  from io have eq: "rd = reference_drifted" "pd = production_drifted" by simp_all
  from en have en':
    "\<exists>xs ys d p. getitem reference_drifted ''sepal_length'' = Inr xs \<and>
       getitem production_drifted ''sepal_length'' = Inr ys \<and>
       ks_2samp_double xs ys = Inr (d, p) \<and> r1 = feature_result xs ys d p"
    "\<exists>xs ys d p. getitem reference_drifted ''sepal_width'' = Inr xs \<and>
       getitem production_drifted ''sepal_width'' = Inr ys \<and>
       ks_2samp_double xs ys = Inr (d, p) \<and> r2 = feature_result xs ys d p"
    "\<exists>xs ys d p. getitem reference_drifted ''petal_length'' = Inr xs \<and>
       getitem production_drifted ''petal_length'' = Inr ys \<and>
       ks_2samp_double xs ys = Inr (d, p) \<and> r3 = feature_result xs ys d p"
    "\<exists>xs ys d p. getitem reference_drifted ''petal_width'' = Inr xs \<and>
       getitem production_drifted ''petal_width'' = Inr ys \<and>
       ks_2samp_double xs ys = Inr (d, p) \<and> r4 = feature_result xs ys d p"
    unfolding eq window_production_drifted by simp_all
  have sc: "drift_score r1 = min (round_double 0 * 2) 1"
    "drift_score r2 = min (round_double (1 / 10) * 2) 1"
    "drift_score r3 = min (round_double (1 / 5) * 2) 1"
    "drift_score r4 = min (round_double (3 / 10) * 2) 1"
    using entry_score [OF getitem_reference_drifted(1) getitem_production_drifted(1) en'(1)]
      entry_score [OF getitem_reference_drifted(2) getitem_production_drifted(2) en'(2)]
      entry_score [OF getitem_reference_drifted(3) getitem_production_drifted(3) en'(3)]
      entry_score [OF getitem_reference_drifted(4) getitem_production_drifted(4) en'(4)]
    by (simp_all only: ks_distance_drifted)
  have s1: "drift_score r1 = 0" by (simp add: sc(1) round_double_0)
  have s: "drift_score r1 = 0" "drift_score r2 = 3602879701896397 / 2 ^ 54"
    "drift_score r3 = 3602879701896397 / 2 ^ 53" "drift_score r4 = 5404319552844595 / 2 ^ 53"
    by (rule s1) (simp_all only: sc doubled_statistics)
  have "overall_drift_score (drift_analysis report) = 1351079888211149 / 2 ^ 52"
    by (simp only: ov s rounded_sum_drifted)
  with fa s show thesis by (rule that)
qed

section \<open>The claims\<close>

text \<open>
  C3. For every overall drift score, \<open>drift_severity\<close> is \<open>low\<close> if the score is strictly
  below 0.2, \<open>medium\<close> if it is at least 0.2 and strictly below 0.5, and \<open>high\<close>
  otherwise; a score of exactly 0.2 yields \<open>medium\<close> and exactly 0.5 yields \<open>high\<close>.
  The score is the one the report carries, whatever test and tables produced it.
\<close>

theorem severity_tiers:
  assumes "analysis ks read_reference read_production = Inr report"
  shows "(overall_drift_score (drift_analysis report) < 0.2 \<longrightarrow>
            drift_severity (drift_analysis report) = ''low'') \<and>
         (0.2 \<le> overall_drift_score (drift_analysis report) \<and>
          overall_drift_score (drift_analysis report) < 0.5 \<longrightarrow>
            drift_severity (drift_analysis report) = ''medium'') \<and>
         (0.5 \<le> overall_drift_score (drift_analysis report) \<longrightarrow>
            drift_severity (drift_analysis report) = ''high'') \<and>
         (overall_drift_score (drift_analysis report) = 0.2 \<longrightarrow>
            drift_severity (drift_analysis report) = ''medium'') \<and>
         (overall_drift_score (drift_analysis report) = 0.5 \<longrightarrow>
            drift_severity (drift_analysis report) = ''high'')"
proof -
  from assms obtain score_sum where
    "overall_drift_score (drift_analysis report) = score_sum / 4"
    "drift_severity (drift_analysis report) = severity (score_sum / 4)"
    by (rule analysis_Inr) simp
  then show ?thesis by (simp add: severity_def)
qed

text \<open>Three runs: a mean of exactly 0.2, of exactly 0.5, and of 0.1.\<close>

theorem severity_tiers_witness:
  "(\<exists>report. analysis (constant_test (1 / 10) (1 / 2)) (Inr reference_two) (Inr production_two)
        = Inr report \<and>
      overall_drift_score (drift_analysis report) = 0.2 \<and>
      drift_severity (drift_analysis report) = ''medium'') \<and>
   (\<exists>report. analysis (constant_test (1 / 4) (1 / 2)) (Inr reference_two) (Inr production_two)
        = Inr report \<and>
      overall_drift_score (drift_analysis report) = 0.5 \<and>
      drift_severity (drift_analysis report) = ''high'') \<and>
   (\<exists>report. analysis (constant_test (1 / 20) (1 / 2)) (Inr reference_two) (Inr production_two)
        = Inr report \<and>
      overall_drift_score (drift_analysis report) < 0.2 \<and>
      drift_severity (drift_analysis report) = ''low'')"
proof (intro conjI)
  let ?run = "\<lambda>d. analysis (constant_test d (1 / 2)) (Inr reference_two) (Inr production_two)"
  obtain r1 where r1: "?run (1 / 10) = Inr r1" by (simp add: analysis_constant)
  have o1: "overall_drift_score (drift_analysis r1) = 0.2"
    using r1 by (auto simp add: analysis_constant)
  from severity_tiers [OF r1] o1 r1
  show "\<exists>report. ?run (1 / 10) = Inr report \<and>
      overall_drift_score (drift_analysis report) = 0.2 \<and>
      drift_severity (drift_analysis report) = ''medium''"
    by simp
  obtain r2 where r2: "?run (1 / 4) = Inr r2" by (simp add: analysis_constant)
  have o2: "overall_drift_score (drift_analysis r2) = 0.5"
    using r2 by (auto simp add: analysis_constant)
  from severity_tiers [OF r2] o2 r2
  show "\<exists>report. ?run (1 / 4) = Inr report \<and>
      overall_drift_score (drift_analysis report) = 0.5 \<and>
      drift_severity (drift_analysis report) = ''high''"
    by simp
  obtain r3 where r3: "?run (1 / 20) = Inr r3" by (simp add: analysis_constant)
  have o3: "overall_drift_score (drift_analysis r3) = 0.1"
    using r3 by (auto simp add: analysis_constant)
  from severity_tiers [OF r3] o3 r3
  show "\<exists>report. ?run (1 / 20) = Inr report \<and>
      overall_drift_score (drift_analysis report) < 0.2 \<and>
      drift_severity (drift_analysis report) = ''low''"
    by simp
qed

text \<open>
  C8. \<open>monitoring_status.level\<close> mirrors the severity tiers with the same 0.2 and 0.5
  boundaries: in every run the level is \<open>normal\<close> exactly when the severity is \<open>low\<close>,
  \<open>warning\<close> exactly when it is \<open>medium\<close>, and \<open>critical\<close> exactly when it is \<open>high\<close>.
\<close>

theorem level_mirrors_severity:
  assumes "analysis ks read_reference read_production = Inr report"
  shows "(level (monitoring_status report) = ''normal'' \<longleftrightarrow>
            drift_severity (drift_analysis report) = ''low'') \<and>
         (level (monitoring_status report) = ''warning'' \<longleftrightarrow>
            drift_severity (drift_analysis report) = ''medium'') \<and>
         (level (monitoring_status report) = ''critical'' \<longleftrightarrow>
            drift_severity (drift_analysis report) = ''high'') \<and>
         level (monitoring_status report) =
           (if overall_drift_score (drift_analysis report) < 0.2 then ''normal''
            else if overall_drift_score (drift_analysis report) < 0.5 then ''warning''
            else ''critical'')"
proof -
  from assms obtain score_sum where
    "overall_drift_score (drift_analysis report) = score_sum / 4"
    "drift_severity (drift_analysis report) = severity (score_sum / 4)"
    "level (monitoring_status report) = monitoring_level (score_sum / 4)"
    by (rule analysis_Inr) simp
  then show ?thesis by (simp add: severity_def monitoring_level_def)
qed

text \<open>A run of the specification's test on the shifted sample: mean 0.25.\<close>

theorem level_mirrors_severity_witness:
  "\<exists>report. analysis ks_2samp (Inr reference_two) (Inr production_two) = Inr report \<and>
     level (monitoring_status report) = ''warning'' \<and>
     drift_severity (drift_analysis report) = ''medium''"
proof -
  obtain report where r: "analysis ks_2samp (Inr reference_two) (Inr production_two) = Inr report"
    by (simp add: analysis_shifted)
  have "drift_severity (drift_analysis report) = ''medium''"
    using r by (auto simp add: analysis_shifted severity_def)
  with level_mirrors_severity [OF r] r show ?thesis by simp
qed

text \<open>
  C6. In every run \<open>monitoring_status.requires_attention\<close> is true if and only if the
  number of features whose \<open>is_significant\<close> flag is true is greater than 0, or
  \<open>overall_drift_score\<close> is strictly greater than 0.3. The count is taken over the
  per-feature entries of the report, not read from the loop's counter.
\<close>

theorem requires_attention_iff:
  assumes "analysis ks read_reference read_production = Inr report"
  shows "requires_attention (monitoring_status report) \<longleftrightarrow>
           length (filter (\<lambda>entry. is_significant (snd entry))
                     (feature_analysis (drift_analysis report))) > 0 \<or>
           overall_drift_score (drift_analysis report) > 0.3"
proof -
  from assms obtain rd pd results score_sum significant where
    loop: "feature_loop ks rd (window pd) feature_columns ([], 0, 0) =
             Inr (results, score_sum, significant)"
    and da: "drift_analysis report =
       \<lparr> overall_drift_score = score_sum / 4,
         drift_severity = severity (score_sum / 4),
         significant_drifts = significant,
         total_features = 4,
         feature_analysis = results \<rparr>"
    and ms: "monitoring_status report =
       \<lparr> level = monitoring_level (score_sum / 4),
         requires_attention = (significant > 0 \<or> score_sum / 4 > 0.3) \<rparr>"
    by (rule analysis_Inr)
  from feature_loop_Inr [OF loop distinct_feature_columns]
  have "significant = int (length (filter (\<lambda>e. is_significant (snd e)) results))"
    by auto
  then show ?thesis by (simp add: da ms)
qed

text \<open>A run where all four features are significant, and one where none is.\<close>

theorem requires_attention_iff_witness:
  "(\<exists>report. analysis (constant_test (1 / 10) (1 / 100)) (Inr reference_two) (Inr production_two)
        = Inr report \<and>
      length (filter (\<lambda>entry. is_significant (snd entry))
                (feature_analysis (drift_analysis report))) = 4 \<and>
      \<not> overall_drift_score (drift_analysis report) > 0.3 \<and>
      requires_attention (monitoring_status report)) \<and>
   (\<exists>report. analysis ks_2samp (Inr reference_two) (Inr production_two) = Inr report \<and>
      length (filter (\<lambda>entry. is_significant (snd entry))
                (feature_analysis (drift_analysis report))) = 0 \<and>
      \<not> overall_drift_score (drift_analysis report) > 0.3 \<and>
      \<not> requires_attention (monitoring_status report))"
proof (intro conjI)
  obtain r1 where r1: "analysis (constant_test (1 / 10) (1 / 100)) (Inr reference_two)
      (Inr production_two) = Inr r1"
    by (simp add: analysis_constant)
  have f1: "length (filter (\<lambda>entry. is_significant (snd entry))
                (feature_analysis (drift_analysis r1))) = 4"
       "\<not> overall_drift_score (drift_analysis r1) > 0.3"
    using r1 by (auto simp add: analysis_constant feature_result_def)
  from requires_attention_iff [OF r1] f1 r1
  show "\<exists>report. analysis (constant_test (1 / 10) (1 / 100)) (Inr reference_two)
        (Inr production_two) = Inr report \<and>
      length (filter (\<lambda>entry. is_significant (snd entry))
                (feature_analysis (drift_analysis report))) = 4 \<and>
      \<not> overall_drift_score (drift_analysis report) > 0.3 \<and>
      requires_attention (monitoring_status report)"
    by simp
  obtain r2 where r2: "analysis ks_2samp (Inr reference_two) (Inr production_two) = Inr r2"
    by (simp add: analysis_shifted)
  have f2: "length (filter (\<lambda>entry. is_significant (snd entry))
                (feature_analysis (drift_analysis r2))) = 0"
       "\<not> overall_drift_score (drift_analysis r2) > 0.3"
    using r2 by (auto simp add: analysis_shifted feature_result_def)
  from requires_attention_iff [OF r2] f2 r2
  show "\<exists>report. analysis ks_2samp (Inr reference_two) (Inr production_two) = Inr report \<and>
      length (filter (\<lambda>entry. is_significant (snd entry))
                (feature_analysis (drift_analysis report))) = 0 \<and>
      \<not> overall_drift_score (drift_analysis report) > 0.3 \<and>
      \<not> requires_attention (monitoring_status report)"
    by simp
qed

text \<open>
  C2, as stated: in every run over the four configured features \<open>overall_drift_score\<close>
  equals the unweighted arithmetic mean of the four per-feature drift scores. The source
  adds the scores one by one in double precision. On the drifted tables the four scores
  are the doubles printed as 0.0, 0.2, 0.4 and 0.6 and the overall score is the double
  printed as 0.30000000000000004: it is neither the mean of the four scores nor the
  double nearest to that mean, which is printed as 0.3.
\<close>

theorem mean_is_not_exact:
  "\<exists>report r1 r2 r3 r4.
     analysis_double ks_2samp_double (Inr reference_drifted) (Inr production_drifted) =
       Inr report \<and>
     feature_analysis (drift_analysis report) =
       [(''sepal_length'', r1), (''sepal_width'', r2),
        (''petal_length'', r3), (''petal_width'', r4)] \<and>
     drift_score r1 = 0 \<and> drift_score r2 = 3602879701896397 / 2 ^ 54 \<and>
     drift_score r3 = 3602879701896397 / 2 ^ 53 \<and> drift_score r4 = 5404319552844595 / 2 ^ 53 \<and>
     overall_drift_score (drift_analysis report) = 1351079888211149 / 2 ^ 52 \<and>
     overall_drift_score (drift_analysis report) \<noteq>
       (drift_score r1 + drift_score r2 + drift_score r3 + drift_score r4) / 4 \<and>
     overall_drift_score (drift_analysis report) \<noteq>
       round_double ((drift_score r1 + drift_score r2 + drift_score r3 + drift_score r4) / 4)"
proof -
  obtain report where
    r: "analysis_double ks_2samp_double (Inr reference_drifted) (Inr production_drifted) =
          Inr report"
    using analysis_double_isl [of ks_2samp_double "Inr reference_drifted"
        "Inr production_drifted"] pipeline_drifted
    by (cases "analysis_double ks_2samp_double (Inr reference_drifted)
          (Inr production_drifted)") auto
  from r obtain r1 r2 r3 r4 where
    fa: "feature_analysis (drift_analysis report) =
       [(''sepal_length'', r1), (''sepal_width'', r2),
        (''petal_length'', r3), (''petal_width'', r4)]"
    and s: "drift_score r1 = 0" "drift_score r2 = 3602879701896397 / 2 ^ 54"
    "drift_score r3 = 3602879701896397 / 2 ^ 53" "drift_score r4 = 5404319552844595 / 2 ^ 53"
    and ov: "overall_drift_score (drift_analysis report) = 1351079888211149 / 2 ^ 52"
    by (rule analysis_double_drifted)
  have m: "(drift_score r1 + drift_score r2 + drift_score r3 + drift_score r4) / 4 =
      21617278211378381 / 2 ^ 56"
    by (simp only: s exact_mean_drifted(1))
  have "overall_drift_score (drift_analysis report) \<noteq>
       (drift_score r1 + drift_score r2 + drift_score r3 + drift_score r4) / 4"
    by (simp only: m ov exact_mean_drifted(3) not_False_eq_True)
  moreover have "overall_drift_score (drift_analysis report) \<noteq>
       round_double ((drift_score r1 + drift_score r2 + drift_score r3 + drift_score r4) / 4)"
    by (simp only: m ov exact_mean_drifted(2,4) not_False_eq_True)
  ultimately show ?thesis using r fa s ov by blast
qed

text \<open>
  C2, amended. In every run over the four configured features \<open>overall_drift_score\<close> is
  the sum of the four per-feature drift scores taken in feature order in double
  precision, each partial sum rounded to the nearest double, divided by the number of
  features; for scores that are not negative it differs from their arithmetic mean by at
  most \<open>2\<^sup>-\<^sup>5\<^sup>0\<close>.
\<close>

theorem overall_is_rounded_mean:
  assumes "analysis_double ks read_reference read_production = Inr report"
  shows "\<exists>r1 r2 r3 r4.
           feature_analysis (drift_analysis report) =
             [(''sepal_length'', r1), (''sepal_width'', r2),
              (''petal_length'', r3), (''petal_width'', r4)] \<and>
           overall_drift_score (drift_analysis report) =
             round_double
               (round_double (round_double (round_double (round_double
                  (0 + drift_score r1) + drift_score r2) + drift_score r3) + drift_score r4) / 4) \<and>
           (0 \<le> drift_score r1 \<and> 0 \<le> drift_score r2 \<and>
            0 \<le> drift_score r3 \<and> 0 \<le> drift_score r4 \<longrightarrow>
              \<bar>overall_drift_score (drift_analysis report) -
                (drift_score r1 + drift_score r2 + drift_score r3 + drift_score r4) / 4\<bar>
              \<le> 1 / 2 ^ 50)"
proof -
  from assms obtain rd pd r1 r2 r3 r4 where
    fa: "feature_analysis (drift_analysis report) =
       [(''sepal_length'', r1), (''sepal_width'', r2),
        (''petal_length'', r3), (''petal_width'', r4)]"
    and ov: "overall_drift_score (drift_analysis report) =
       round_double
         (round_double (round_double (round_double (round_double
            (0 + drift_score r1) + drift_score r2) + drift_score r3) + drift_score r4) / 4)"
    and en: "list_all (\<lambda>(f, r). \<exists>xs ys d p. getitem rd f = Inr xs \<and>
        getitem (window pd) f = Inr ys \<and> ks xs ys = Inr (d, p) \<and>
        r = feature_result xs ys d p)
       [(''sepal_length'', r1), (''sepal_width'', r2),
        (''petal_length'', r3), (''petal_width'', r4)]"
    by (rule analysis_double_scores)
  from en have le: "drift_score r1 \<le> 1" "drift_score r2 \<le> 1"
    "drift_score r3 \<le> 1" "drift_score r4 \<le> 1"
    by (auto simp: feature_result_def)
  have "\<bar>overall_drift_score (drift_analysis report) -
        (drift_score r1 + drift_score r2 + drift_score r3 + drift_score r4) / 4\<bar> \<le> 1 / 2 ^ 50"
    if "0 \<le> drift_score r1 \<and> 0 \<le> drift_score r2 \<and>
        0 \<le> drift_score r3 \<and> 0 \<le> drift_score r4"
    unfolding ov using that le by (intro rounded_mean_near) simp_all
  with fa ov show ?thesis by blast
qed

text \<open>The run on the drifted tables again: the score and its distance from the mean.\<close>

theorem overall_is_rounded_mean_witness:
  "\<exists>report r1 r2 r3 r4.
     analysis_double ks_2samp_double (Inr reference_drifted) (Inr production_drifted) =
       Inr report \<and>
     feature_analysis (drift_analysis report) =
       [(''sepal_length'', r1), (''sepal_width'', r2),
        (''petal_length'', r3), (''petal_width'', r4)] \<and>
     0 \<le> drift_score r1 \<and> 0 \<le> drift_score r2 \<and> 0 \<le> drift_score r3 \<and> 0 \<le> drift_score r4 \<and>
     overall_drift_score (drift_analysis report) = 1351079888211149 / 2 ^ 52 \<and>
     \<bar>overall_drift_score (drift_analysis report) -
        (drift_score r1 + drift_score r2 + drift_score r3 + drift_score r4) / 4\<bar> \<le> 1 / 2 ^ 50"
proof -
  obtain report where
    r: "analysis_double ks_2samp_double (Inr reference_drifted) (Inr production_drifted) =
          Inr report"
    using analysis_double_isl [of ks_2samp_double "Inr reference_drifted"
        "Inr production_drifted"] pipeline_drifted
    by (cases "analysis_double ks_2samp_double (Inr reference_drifted)
          (Inr production_drifted)") auto
  from r obtain r1 r2 r3 r4 where
    fa: "feature_analysis (drift_analysis report) =
       [(''sepal_length'', r1), (''sepal_width'', r2),
        (''petal_length'', r3), (''petal_width'', r4)]"
    and s: "drift_score r1 = 0" "drift_score r2 = 3602879701896397 / 2 ^ 54"
    "drift_score r3 = 3602879701896397 / 2 ^ 53" "drift_score r4 = 5404319552844595 / 2 ^ 53"
    and ov: "overall_drift_score (drift_analysis report) = 1351079888211149 / 2 ^ 52"
    by (rule analysis_double_drifted)
  have nn: "0 \<le> drift_score r1" "0 \<le> drift_score r2" "0 \<le> drift_score r3" "0 \<le> drift_score r4"
    by (simp_all add: s)
  from overall_is_rounded_mean [OF r] fa nn
  have "\<bar>overall_drift_score (drift_analysis report) -
        (drift_score r1 + drift_score r2 + drift_score r3 + drift_score r4) / 4\<bar> \<le> 1 / 2 ^ 50"
    by auto
  with r fa nn ov show ?thesis by blast
qed



text \<open>
  C10. In the success output \<open>data_summary.production_samples\<close> is the row count of the
  production table after windowing, that is the minimum of its original row count and 100,
  \<open>data_summary.reference_samples\<close> is the full row count of the reference table, and
  \<open>data_summary.analysis_limit\<close> is the constant 100.
\<close>

theorem data_summary_counts:
  assumes "analysis ks read_reference read_production = Inr report"
  shows "\<exists>reference_df production_df.
           read_reference = Inr reference_df \<and> read_production = Inr production_df \<and>
           production_samples (data_summary report) = min (len production_df) 100 \<and>
           reference_samples (data_summary report) = len reference_df \<and>
           analysis_limit (data_summary report) = 100"
proof -
  from assms obtain rd pd where
    "read_reference = Inr rd" "read_production = Inr pd"
    "data_summary report =
       \<lparr> reference_samples = len rd, production_samples = len (window pd), analysis_limit = 100 \<rparr>"
    by (rule analysis_Inr)
  then show ?thesis by (simp add: len_window)
qed

text \<open>A production table of 250 rows is reported as 100 samples.\<close>

theorem data_summary_counts_witness:
  "\<exists>report.
     analysis (constant_test (1 / 10) (1 / 2)) (Inr reference_two) (Inr (numbered 250)) = Inr report \<and>
     len (numbered 250) = 250 \<and>
     production_samples (data_summary report) = 100 \<and>
     reference_samples (data_summary report) = 2 \<and>
     analysis_limit (data_summary report) = 100"
proof -
  obtain report where
    r: "analysis (constant_test (1 / 10) (1 / 2)) (Inr reference_two) (Inr (numbered 250)) = Inr report"
    using analysis_succeeds [OF pipeline_numbered] by blast
  from data_summary_counts [OF r] r show ?thesis
    by (simp add: len_numbered len_samples)
qed

text \<open>
  C5. Windowing keeps exactly the last \<open>min n 100\<close> rows of the production table, in
  input order: of 250 rows the last 100 are kept, a table of at most 100 rows (50, say)
  is left unchanged. The rows kept are the ones scored: each feature is tested on the
  whole reference column, which is never windowed, and on the last \<open>min n 100\<close> values of
  the production column.
\<close>

theorem windowing:
  "rows (window production_df) =
     drop (len production_df - min (len production_df) 100) (rows production_df) \<and>
   rows production_df =
     take (len production_df - min (len production_df) 100) (rows production_df) @
     rows (window production_df) \<and>
   len (window production_df) = min (len production_df) 100 \<and>
   columns (window production_df) = columns production_df \<and>
   (len production_df = 250 \<longrightarrow>
      rows (window production_df) = drop 150 (rows production_df) \<and>
      len (window production_df) = 100) \<and>
   (len production_df \<le> 100 \<longrightarrow> window production_df = production_df) \<and>
   (\<forall>ks reference_df report feature.
      analysis ks (Inr reference_df) (Inr production_df) = Inr report \<and>
      feature \<in> set feature_columns \<longrightarrow>
      (\<exists>ref_data all_prod stat pval.
         getitem reference_df feature = Inr ref_data \<and>
         length ref_data = len reference_df \<and>
         getitem production_df feature = Inr all_prod \<and>
         length all_prod = len production_df \<and>
         ks ref_data (drop (length all_prod - min (length all_prod) 100) all_prod) =
           Inr (stat, pval) \<and>
         map_of (feature_analysis (drift_analysis report)) feature =
           Some (feature_result ref_data
                   (drop (length all_prod - min (length all_prod) 100) all_prod) stat pval)))"
proof (intro conjI allI impI)
  show "rows (window production_df) =
     drop (len production_df - min (len production_df) 100) (rows production_df)"
    by (rule rows_window)
  then show "rows production_df =
     take (len production_df - min (len production_df) 100) (rows production_df) @
     rows (window production_df)"
    by simp
  show "len (window production_df) = min (len production_df) 100" by (rule len_window)
  show "columns (window production_df) = columns production_df" by (rule columns_window)
  show "rows (window production_df) = drop 150 (rows production_df)"
    if "len production_df = 250"
    using that by (simp add: rows_window)
  show "len (window production_df) = 100" if "len production_df = 250"
    using that by (simp add: len_window)
  show "window production_df = production_df" if "len production_df \<le> 100"
    using that by (rule window_small)
next
  fix ks reference_df report feature
  assume a: "analysis ks (Inr reference_df) (Inr production_df) = Inr report \<and>
      feature \<in> set feature_columns"
  then have r: "analysis ks (Inr reference_df) (Inr production_df) = Inr report"
    and f: "feature \<in> set feature_columns" by simp_all
  from r f obtain rd pd xs ys d p where
    e: "Inr reference_df = (Inr rd :: exn + dataframe)" "Inr production_df = (Inr pd :: exn + dataframe)"
    "getitem rd feature = Inr xs" "getitem (window pd) feature = Inr ys" "ks xs ys = Inr (d, p)"
    "map_of (feature_analysis (drift_analysis report)) feature = Some (feature_result xs ys d p)"
    by (rule analysis_entry)
  from e(1,2) have eq: "rd = reference_df" "pd = production_df" by simp_all
  from getitem_window_Inr [OF e(4)] obtain all_prod where
    ap: "getitem pd feature = Inr all_prod"
    "ys = drop (length all_prod - min (length all_prod) 100) all_prod"
    by blast
  from e(3) ap(1) have lens: "length xs = len rd" "length all_prod = len pd"
    by (simp_all add: getitem_length)
  show "\<exists>ref_data all_prod stat pval.
         getitem reference_df feature = Inr ref_data \<and>
         length ref_data = len reference_df \<and>
         getitem production_df feature = Inr all_prod \<and>
         length all_prod = len production_df \<and>
         ks ref_data (drop (length all_prod - min (length all_prod) 100) all_prod) =
           Inr (stat, pval) \<and>
         map_of (feature_analysis (drift_analysis report)) feature =
           Some (feature_result ref_data
                   (drop (length all_prod - min (length all_prod) 100) all_prod) stat pval)"
    using e(3,5,6) ap lens unfolding eq by blast
qed

text \<open>
  250 numbered rows: the rows scored are those numbered 150 to 249; 50 rows stay as
  they are.
\<close>

theorem windowing_witness:
  "\<exists>report.
     analysis (constant_test (1 / 10) (1 / 2)) (Inr reference_two) (Inr (numbered 250)) = Inr report \<and>
     len (numbered 250) = 250 \<and>
     rows (window (numbered 250)) = drop 150 (rows (numbered 250)) \<and>
     len (window (numbered 250)) = 100 \<and>
     len (numbered 50) \<le> 100 \<and>
     window (numbered 50) = numbered 50 \<and>
     map_of (feature_analysis (drift_analysis report)) ''sepal_length'' =
       Some (feature_result [46, 47] (drop 150 (map real [0..<250])) (1 / 10) (1 / 2))"
proof -
  obtain report where
    r: "analysis (constant_test (1 / 10) (1 / 2)) (Inr reference_two) (Inr (numbered 250)) = Inr report"
    using analysis_succeeds [OF pipeline_numbered] by blast
  have f: "''sepal_length'' \<in> set feature_columns" by (simp add: feature_columns_def)
  note w = windowing [of "numbered 250"]
  have l: "len (numbered 250) = 250" by (rule len_numbered)
  from w l have a: "rows (window (numbered 250)) = drop 150 (rows (numbered 250))"
    "len (window (numbered 250)) = 100"
    by blast+
  from w r f obtain ref_data all_prod stat pval where
    e: "getitem reference_two ''sepal_length'' = Inr ref_data"
    "getitem (numbered 250) ''sepal_length'' = Inr all_prod"
    "length all_prod = len (numbered 250)"
    "constant_test (1 / 10) (1 / 2) ref_data
       (drop (length all_prod - min (length all_prod) 100) all_prod) = Inr (stat, pval)"
    "map_of (feature_analysis (drift_analysis report)) ''sepal_length'' =
       Some (feature_result ref_data
               (drop (length all_prod - min (length all_prod) 100) all_prod) stat pval)"
    by blast
  from e(1,2) have v: "ref_data = [46, 47]" "all_prod = map real [0..<250]"
    by (simp_all only: getitem_reference_two getitem_numbered sum.inject)
  from e(3) l have n: "length all_prod - min (length all_prod) 100 = 150" by simp
  from e(4) have sp: "stat = 1 / 10" "pval = 1 / 2" by (simp_all add: constant_test_def)
  have m: "map_of (feature_analysis (drift_analysis report)) ''sepal_length'' =
       Some (feature_result [46, 47] (drop 150 (map real [0..<250])) (1 / 10) (1 / 2))"
    using e(5) [unfolded n, unfolded sp v] .
  have s: "len (numbered 50) \<le> 100" by (simp add: len_numbered)
  from windowing [of "numbered 50"] s have "window (numbered 50) = numbered 50" by blast
  with r l a s m show ?thesis by blast
qed

text \<open>
  C4. Whatever fails in the pipeline (a table that cannot be read, a feature column
  missing from either table, the test raising on a pair of columns, an empty sample for
  instance), the whole output is the single error document with the fields \<open>error\<close>,
  \<open>details\<close> and \<open>recommendation\<close>, never a partial report; so a \<open>drift_analysis\<close> key in
  the output means that the whole pipeline succeeded.
\<close>

theorem all_or_nothing:
  "(pipeline_succeeds ks read_reference read_production \<longrightarrow>
      (\<exists>report. analyze_drift ks read_reference read_production = [AnalysisDocument report])) \<and>
   (\<not> pipeline_succeeds ks read_reference read_production \<longrightarrow>
      (\<exists>e. analyze_drift ks read_reference read_production = [error_document e])) \<and>
   (\<forall>e. read_reference = Inl e \<longrightarrow>
      analyze_drift ks read_reference read_production = [error_document e]) \<and>
   (\<forall>reference_df e. read_reference = Inr reference_df \<and> read_production = Inl e \<longrightarrow>
      analyze_drift ks read_reference read_production = [error_document e]) \<and>
   (\<forall>reference_df production_df feature.
      read_reference = Inr reference_df \<and> read_production = Inr production_df \<and>
      feature \<in> set feature_columns \<and>
      (feature \<notin> set (columns reference_df) \<or> feature \<notin> set (columns production_df)) \<longrightarrow>
      (\<exists>e. analyze_drift ks read_reference read_production = [error_document e])) \<and>
   (\<forall>reference_df production_df feature ref_data prod_data e.
      read_reference = Inr reference_df \<and> read_production = Inr production_df \<and>
      feature \<in> set feature_columns \<and>
      getitem reference_df feature = Inr ref_data \<and>
      getitem (window production_df) feature = Inr prod_data \<and>
      ks ref_data prod_data = Inl e \<longrightarrow>
      (\<exists>e'. analyze_drift ks read_reference read_production = [error_document e'])) \<and>
   (\<forall>doc \<in> set (analyze_drift ks read_reference read_production).
      ''drift_analysis'' \<in> set (top_level_keys doc) \<longrightarrow>
      pipeline_succeeds ks read_reference read_production) \<and>
   (\<forall>e. top_level_keys (error_document e) = [''error'', ''details'', ''recommendation''])"
proof -
  let ?out = "analyze_drift ks read_reference read_production"
  let ?ok = "pipeline_succeeds ks read_reference read_production"
  have ok: "\<exists>report. ?out = [AnalysisDocument report]" if ?ok
    using analysis_succeeds [OF that] by (auto simp: analyze_drift_def)
  have bad: "\<exists>e. ?out = [error_document e]" if "\<not> ?ok"
    using analysis_fails [OF that] by (auto simp: analyze_drift_def)
  have ref: "?out = [error_document e]" if "read_reference = Inl e" for e
    using that by (simp add: analyze_drift_def analysis_def)
  have prod: "?out = [error_document e]"
    if "read_reference = Inr reference_df \<and> read_production = Inl e" for reference_df e
    using that by (simp add: analyze_drift_def analysis_def)
  have col: "\<exists>e. ?out = [error_document e]"
    if "read_reference = Inr reference_df \<and> read_production = Inr production_df \<and>
      feature \<in> set feature_columns \<and>
      (feature \<notin> set (columns reference_df) \<or> feature \<notin> set (columns production_df))"
    for reference_df production_df feature
  proof (rule bad)
    from that have k: "getitem reference_df feature = Inl (KeyError feature) \<or>
        getitem (window production_df) feature = Inl (KeyError feature)"
      by (auto simp: getitem_def columns_window)
    show "\<not> ?ok"
    proof
      assume ?ok
      with that have "\<exists>xs ys d p. getitem reference_df feature = Inr xs \<and>
          getitem (window production_df) feature = Inr ys \<and> ks xs ys = Inr (d, p)"
        by (auto simp: pipeline_succeeds_def)
      with k show False by auto
    qed
  qed
  have test: "\<exists>e'. ?out = [error_document e']"
    if "read_reference = Inr reference_df \<and> read_production = Inr production_df \<and>
      feature \<in> set feature_columns \<and>
      getitem reference_df feature = Inr ref_data \<and>
      getitem (window production_df) feature = Inr prod_data \<and>
      ks ref_data prod_data = Inl e"
    for reference_df production_df feature ref_data prod_data e
  proof (rule bad)
    show "\<not> ?ok"
    proof
      assume ?ok
      with that have "\<exists>xs ys d p. getitem reference_df feature = Inr xs \<and>
          getitem (window production_df) feature = Inr ys \<and> ks xs ys = Inr (d, p)"
        by (auto simp: pipeline_succeeds_def)
      with that show False by auto
    qed
  qed
  have key: "?ok" if "doc \<in> set ?out" "''drift_analysis'' \<in> set (top_level_keys doc)" for doc
  proof (rule ccontr)
    assume "\<not> ?ok"
    from bad [OF this] that show False
      by (auto simp: error_document_def)
  qed
  have keys: "top_level_keys (error_document e) = [''error'', ''details'', ''recommendation'']"
    for e by (simp add: error_document_def)
  from ok bad ref prod col test key keys show ?thesis by blast
qed

text \<open>
  One run that succeeds and three that fail: production without \<open>petal_width\<close>, empty
  production, unreadable reference.
\<close>

theorem all_or_nothing_witness:
  "pipeline_succeeds ks_2samp (Inr reference_two) (Inr production_two) \<and>
   (\<exists>report. analyze_drift ks_2samp (Inr reference_two) (Inr production_two) =
      [AnalysisDocument report]) \<and>
   \<not> pipeline_succeeds ks_2samp (Inr reference_two) (Inr production_no_petal_width) \<and>
   analyze_drift ks_2samp (Inr reference_two) (Inr production_no_petal_width) =
     [error_document (KeyError ''petal_width'')] \<and>
   \<not> pipeline_succeeds ks_2samp (Inr reference_two) (Inr production_empty) \<and>
   analyze_drift ks_2samp (Inr reference_two) (Inr production_empty) =
     [error_document (ValueError ''Data passed to ks_2samp must not be empty'')] \<and>
   analyze_drift ks_2samp (Inl (IOError ''No such file or directory'')) (Inr production_two) =
     [error_document (IOError ''No such file or directory'')] \<and>
   top_level_keys (error_document (KeyError ''petal_width'')) =
     [''error'', ''details'', ''recommendation'']"
proof -
  note t1 = all_or_nothing [of ks_2samp "Inr reference_two" "Inr production_two"]
  note t2 = all_or_nothing [of ks_2samp "Inr reference_two" "Inr production_no_petal_width"]
  note t3 = all_or_nothing [of ks_2samp "Inr reference_two" "Inr production_empty"]
  note t4 = all_or_nothing [of ks_2samp "Inl (IOError ''No such file or directory'')"
      "Inr production_two"]
  have p1: "pipeline_succeeds ks_2samp (Inr reference_two) (Inr production_two)"
    using analysis_isl [of ks_2samp "Inr reference_two" "Inr production_two"]
    by (simp add: analysis_shifted)
  with t1 have a1: "\<exists>report. analyze_drift ks_2samp (Inr reference_two) (Inr production_two) =
      [AnalysisDocument report]" by blast
  have p2: "\<not> pipeline_succeeds ks_2samp (Inr reference_two) (Inr production_no_petal_width)"
    using analysis_isl [of ks_2samp "Inr reference_two" "Inr production_no_petal_width"]
    by (simp add: analysis_no_petal_width)
  with t2 obtain e2 where "analyze_drift ks_2samp (Inr reference_two)
      (Inr production_no_petal_width) = [error_document e2]" by blast
  then have a2: "analyze_drift ks_2samp (Inr reference_two) (Inr production_no_petal_width) =
     [error_document (KeyError ''petal_width'')]"
    by (simp add: analyze_drift_def analysis_no_petal_width)
  have p3: "\<not> pipeline_succeeds ks_2samp (Inr reference_two) (Inr production_empty)"
    using analysis_isl [of ks_2samp "Inr reference_two" "Inr production_empty"]
    by (simp add: analysis_production_empty)
  with t3 obtain e3 where "analyze_drift ks_2samp (Inr reference_two)
      (Inr production_empty) = [error_document e3]" by blast
  then have a3: "analyze_drift ks_2samp (Inr reference_two) (Inr production_empty) =
     [error_document (ValueError ''Data passed to ks_2samp must not be empty'')]"
    by (simp add: analyze_drift_def analysis_production_empty)
  from t4 have a4: "analyze_drift ks_2samp (Inl (IOError ''No such file or directory''))
      (Inr production_two) = [error_document (IOError ''No such file or directory'')]"
    by blast
  from t1 have a5: "top_level_keys (error_document (KeyError ''petal_width'')) =
     [''error'', ''details'', ''recommendation'']" by blast
  from p1 a1 p2 a2 p3 a3 a4 a5 show ?thesis by blast
qed

text \<open>
  C9. For every pair of identical samples (the reference column and the windowed
  production column of a feature are the same sequence of values) the feature's KS
  statistic is 0, its drift score is 0, its \<open>drift_detected\<close> flag is false and its p-value
  is 1. The test is the one of the specification, \<open>ks_2samp\<close>; it returns on every
  sample that is not empty, and a run that reports the feature has no empty sample.
\<close>

theorem identical_samples:
  "(sample \<noteq> [] \<longrightarrow> ks_2samp sample sample = Inr (0, 1)) \<and>
   (\<forall>reference_df production_df report feature.
      analysis ks_2samp (Inr reference_df) (Inr production_df) = Inr report \<and>
      feature \<in> set feature_columns \<and>
      getitem reference_df feature = Inr sample \<and>
      getitem (window production_df) feature = Inr sample \<longrightarrow>
      sample \<noteq> [] \<and>
      (\<exists>r. map_of (feature_analysis (drift_analysis report)) feature = Some r \<and>
         ks_statistic r = 0 \<and> drift_score r = 0 \<and> \<not> drift_detected r \<and> p_value r = 1))"
proof (intro conjI allI impI)
  show "ks_2samp sample sample = Inr (0, 1)" if "sample \<noteq> []"
    using that by (rule ks_2samp_identical)
next
  fix reference_df production_df report feature
  assume a: "analysis ks_2samp (Inr reference_df) (Inr production_df) = Inr report \<and>
      feature \<in> set feature_columns \<and>
      getitem reference_df feature = Inr sample \<and>
      getitem (window production_df) feature = Inr sample"
  then have r: "analysis ks_2samp (Inr reference_df) (Inr production_df) = Inr report"
    and f: "feature \<in> set feature_columns" by simp_all
  from r f obtain rd pd xs ys d p where
    e: "Inr reference_df = (Inr rd :: exn + dataframe)"
    "Inr production_df = (Inr pd :: exn + dataframe)"
    "getitem rd feature = Inr xs" "getitem (window pd) feature = Inr ys"
    "ks_2samp xs ys = Inr (d, p)"
    "map_of (feature_analysis (drift_analysis report)) feature = Some (feature_result xs ys d p)"
    by (rule analysis_entry)
  from e(1,2,3,4) a have same: "xs = sample" "ys = sample" by simp_all
  from e(5) show ne: "sample \<noteq> []"
    unfolding same by (auto simp: ks_2samp_def split: if_splits)
  from e(5) ks_2samp_identical [OF ne] have dp: "d = 0" "p = 1"
    unfolding same by simp_all
  show "\<exists>r. map_of (feature_analysis (drift_analysis report)) feature = Some r \<and>
         ks_statistic r = 0 \<and> drift_score r = 0 \<and> \<not> drift_detected r \<and> p_value r = 1"
    using e(6) unfolding dp same by (simp add: feature_result_def)
qed

text \<open>The reference table compared with itself.\<close>

theorem identical_samples_witness:
  "\<exists>report r.
     [46, 47] \<noteq> ([] :: real list) \<and> ks_2samp [46, 47] [46, 47] = Inr (0, 1) \<and>
     analysis ks_2samp (Inr reference_two) (Inr reference_two) = Inr report \<and>
     ''sepal_length'' \<in> set feature_columns \<and>
     getitem reference_two ''sepal_length'' = Inr [46, 47] \<and>
     getitem (window reference_two) ''sepal_length'' = Inr [46, 47] \<and>
     map_of (feature_analysis (drift_analysis report)) ''sepal_length'' = Some r \<and>
     ks_statistic r = 0 \<and> drift_score r = 0 \<and> \<not> drift_detected r \<and> p_value r = 1"
proof -
  obtain report where r: "analysis ks_2samp (Inr reference_two) (Inr reference_two) = Inr report"
    by (simp add: analysis_same)
  have f: "''sepal_length'' \<in> set feature_columns" by (simp add: feature_columns_def)
  have g: "getitem reference_two ''sepal_length'' = Inr [46, 47]"
    "getitem (window reference_two) ''sepal_length'' = Inr [46, 47]"
    by (simp_all add: window_samples getitem_reference_two)
  have ne: "[46, 47] \<noteq> ([] :: real list)" by simp
  note t = identical_samples [of "[46, 47]"]
  from t ne have k: "ks_2samp [46, 47] [46, 47] = Inr (0, 1)" by blast
  from t r f g obtain e where
    "map_of (feature_analysis (drift_analysis report)) ''sepal_length'' = Some e \<and>
     ks_statistic e = 0 \<and> drift_score e = 0 \<and> \<not> drift_detected e \<and> p_value e = 1"
    by blast
  with ne k r f g show ?thesis by blast
qed

text \<open>
  C7, as stated: the three conditions are independent and any subset of them, all of
  them or none may fire. The second asks for a score above 0.3 and the third for a score
  below 0.1, so no run emits both the "monitor" and the "stable" entry.
\<close>

theorem all_three_cannot_fire:
  "\<not> (\<exists>ks read_reference read_production report.
        analysis ks read_reference read_production = Inr report \<and>
        monitor_message \<in> set (recommendations report) \<and>
        stable_message \<in> set (recommendations report))"
proof
  assume "\<exists>ks read_reference read_production report.
        analysis ks read_reference read_production = Inr report \<and>
        monitor_message \<in> set (recommendations report) \<and>
        stable_message \<in> set (recommendations report)"
  then obtain ks rr rp report where r: "analysis ks rr rp = Inr report"
    and m: "monitor_message \<in> set (recommendations report)"
    and s: "stable_message \<in> set (recommendations report)"
    by blast
  from r obtain score_sum significant where
    "recommendations report = build_recommendations significant (score_sum / 4)"
    by (rule analysis_Inr)
  with m s have "score_sum / 4 > 0.3" "score_sum / 4 < 0.1"
    by (simp_all add: monitor_mem stable_mem)
  then show False by simp
qed


text \<open>
  C7, amended. The recommendations are built by three tests in this order: a positive
  count of significant features appends the count warning and the "consider retraining"
  entry; a score above 0.3 appends the "monitor" entry; a score below 0.1 appends the
  "stable" entry. The first test is independent of the other two; the second and third
  exclude each other. The six subsets without that pair all occur: none, the first alone,
  the second alone, the third alone, the first with the second, the first with the third
  (each shown by a run whose test returns a fixed statistic and p-value).
\<close>

theorem recommendations_order:
  "(\<forall>ks read_reference read_production report.
      analysis ks read_reference read_production = Inr report \<longrightarrow>
      recommendations report =
        (if significant_drifts (drift_analysis report) > 0
         then [significant_drift_message (significant_drifts (drift_analysis report)),
               retrain_message]
         else []) @
        (if overall_drift_score (drift_analysis report) > 0.3 then [monitor_message] else []) @
        (if overall_drift_score (drift_analysis report) < 0.1 then [stable_message] else []) \<and>
      significant_drifts (drift_analysis report) =
        int (length (filter (\<lambda>entry. is_significant (snd entry))
                       (feature_analysis (drift_analysis report)))) \<and>
      \<not> (overall_drift_score (drift_analysis report) > 0.3 \<and>
         overall_drift_score (drift_analysis report) < 0.1)) \<and>
   (\<exists>ks read_reference read_production report.
      analysis ks read_reference read_production = Inr report \<and>
      recommendations report = []) \<and>
   (\<exists>ks read_reference read_production report.
      analysis ks read_reference read_production = Inr report \<and>
      recommendations report = [significant_drift_message 4, retrain_message]) \<and>
   (\<exists>ks read_reference read_production report.
      analysis ks read_reference read_production = Inr report \<and>
      recommendations report = [monitor_message]) \<and>
   (\<exists>ks read_reference read_production report.
      analysis ks read_reference read_production = Inr report \<and>
      recommendations report = [stable_message]) \<and>
   (\<exists>ks read_reference read_production report.
      analysis ks read_reference read_production = Inr report \<and>
      recommendations report = [significant_drift_message 4, retrain_message, monitor_message]) \<and>
   (\<exists>ks read_reference read_production report.
      analysis ks read_reference read_production = Inr report \<and>
      recommendations report = [significant_drift_message 4, retrain_message, stable_message])"
proof (intro conjI allI impI)
  fix ks read_reference read_production report
  assume r: "analysis ks read_reference read_production = Inr report"
  from r obtain score_sum significant where
    a: "overall_drift_score (drift_analysis report) = score_sum / 4"
       "significant_drifts (drift_analysis report) = significant"
       "recommendations report = build_recommendations significant (score_sum / 4)"
    by (rule analysis_Inr) simp
  show "recommendations report =
        (if significant_drifts (drift_analysis report) > 0
         then [significant_drift_message (significant_drifts (drift_analysis report)),
               retrain_message]
         else []) @
        (if overall_drift_score (drift_analysis report) > 0.3 then [monitor_message] else []) @
        (if overall_drift_score (drift_analysis report) < 0.1 then [stable_message] else [])"
    unfolding a by (rule build_recommendations_eq)
  from r obtain new where
    "feature_analysis (drift_analysis report) = new"
    "significant_drifts (drift_analysis report) =
       int (length (filter (\<lambda>e. is_significant (snd e)) new))"
    by (rule analysis_features)
  then show "significant_drifts (drift_analysis report) =
        int (length (filter (\<lambda>entry. is_significant (snd entry))
                       (feature_analysis (drift_analysis report))))"
    by simp
  show "\<not> (overall_drift_score (drift_analysis report) > 0.3 \<and>
         overall_drift_score (drift_analysis report) < 0.1)"
    by simp
next
  from recommendations_constant [where d = "1 / 10" and p = "1 / 2"]
  show "\<exists>ks read_reference read_production report.
      analysis ks read_reference read_production = Inr report \<and>
      recommendations report = []"
    by (auto simp: build_recommendations_eq)
  from recommendations_constant [where d = "1 / 10" and p = "1 / 100"]
  show "\<exists>ks read_reference read_production report.
      analysis ks read_reference read_production = Inr report \<and>
      recommendations report = [significant_drift_message 4, retrain_message]"
    by (auto simp: build_recommendations_eq)
  from recommendations_constant [where d = "1 / 5" and p = "1 / 2"]
  show "\<exists>ks read_reference read_production report.
      analysis ks read_reference read_production = Inr report \<and>
      recommendations report = [monitor_message]"
    by (auto simp: build_recommendations_eq)
  from recommendations_constant [where d = 0 and p = 1]
  show "\<exists>ks read_reference read_production report.
      analysis ks read_reference read_production = Inr report \<and>
      recommendations report = [stable_message]"
    by (auto simp: build_recommendations_eq)
  from recommendations_constant [where d = "1 / 2" and p = "1 / 100"]
  show "\<exists>ks read_reference read_production report.
      analysis ks read_reference read_production = Inr report \<and>
      recommendations report = [significant_drift_message 4, retrain_message, monitor_message]"
    by (auto simp: build_recommendations_eq)
  from recommendations_constant [where d = "1 / 100" and p = "1 / 100"]
  show "\<exists>ks read_reference read_production report.
      analysis ks read_reference read_production = Inr report \<and>
      recommendations report = [significant_drift_message 4, retrain_message, stable_message]"
    by (auto simp: build_recommendations_eq)
qed

text \<open>A run where the first two tests fire, with the three strings it prints.\<close>

theorem recommendations_order_witness:
  "\<exists>report.
     analysis (constant_test (1 / 2) (1 / 100)) (Inr reference_two) (Inr production_two) = Inr report \<and>
     significant_drifts (drift_analysis report) = 4 \<and>
     overall_drift_score (drift_analysis report) = 1 \<and>
     recommendations report =
       [[CHR 0xF0, CHR 0x9F, CHR 0x9A, CHR 0xA8] @ '' Detected significant drift in 4 feature(s)'',
        ''Consider retraining the model with recent data'',
        ''Monitor model performance metrics closely'']"
proof -
  from recommendations_constant [where d = "1 / 2" and p = "1 / 100"] obtain report where
    r: "analysis (constant_test (1 / 2) (1 / 100)) (Inr reference_two) (Inr production_two) = Inr report"
    and s: "significant_drifts (drift_analysis report) = 4"
    and o: "overall_drift_score (drift_analysis report) = 1"
    by auto
  from recommendations_order r have
    "recommendations report =
        (if significant_drifts (drift_analysis report) > 0
         then [significant_drift_message (significant_drifts (drift_analysis report)),
               retrain_message]
         else []) @
        (if overall_drift_score (drift_analysis report) > 0.3 then [monitor_message] else []) @
        (if overall_drift_score (drift_analysis report) < 0.1 then [stable_message] else [])"
    by blast
  then have "recommendations report =
       [[CHR 0xF0, CHR 0x9F, CHR 0x9A, CHR 0xA8] @ '' Detected significant drift in 4 feature(s)'',
        ''Consider retraining the model with recent data'',
        ''Monitor model performance metrics closely'']"
    unfolding s o
    by (simp add: significant_drift_message_def retrain_message_def monitor_message_def str_int_4)
  with r s o show ?thesis by blast
qed

end
